theory Spec2Isabelle
  imports Complex_Main "HOL-Library.AList" "HOL-Library.Sublist"
begin

section \<open>JavaScript values\<close>

text \<open>
  The parser works on the values a JSON decoder returns.  A JavaScript number is a
  double: a finite value, an infinity or NaN (negative zero is identified with zero,
  as \<open>===\<close> does).  \<open>JUndefined\<close> is the value of a property that is not there; no
  decoder returns it inside a document.  An object is its list of own properties; a
  decoder returns every key once.

  \<open>JObjectProto\<close> is an object whose prototype is another value instead of
  \<open>Object.prototype\<close>: its own properties and its prototype.  \<open>JSON.parse\<close> never
  returns one, it makes the key \<open>__proto__\<close> an own property; a decoder that builds its
  objects by assignment, as the lenient one does, returns one for that key.
\<close>

datatype jsnum = Finite rat | PosInfinity | NegInfinity | NaN

datatype jsval =
    JUndefined
  | JNull
  | JBool bool
  | JNumber jsnum
  | JString string
  | JArray "jsval list"
  | JObject "(string \<times> jsval) list"
  | JObjectProto "(string \<times> jsval) list" jsval

text \<open>Truthiness, as \<open>if (x)\<close>, \<open>x || y\<close> and \<open>Boolean(x)\<close> decide it.\<close>

fun truthy :: "jsval \<Rightarrow> bool" where
  "truthy JUndefined = False"
| "truthy JNull = False"
| "truthy (JBool b) = b"
| "truthy (JNumber (Finite r)) = (r \<noteq> 0)"
| "truthy (JNumber NaN) = False"
| "truthy (JNumber PosInfinity) = True"
| "truthy (JNumber NegInfinity) = True"
| "truthy (JString s) = (s \<noteq> [])"
| "truthy (JArray xs) = True"
| "truthy (JObject kvs) = True"
| "truthy (JObjectProto kvs proto) = True"

text \<open>
  The property read \<open>args.k\<close> on a value that is neither \<open>null\<close> nor \<open>undefined\<close>:
  the own property, or else the property the prototype has.
  The parser reads only the parameter names of the tools; none of them is a property
  that a string, an array, a number or a boolean has of its own or inherits, nor one of
  \<open>Object.prototype\<close>, except \<open>search\<close> on a string, which the parser reads only after
  \<open>artifact_id\<close> was found, that is on an object.  So a value that is not an object has
  none of the properties read.
\<close>

fun getp :: "jsval \<Rightarrow> string \<Rightarrow> jsval" where
  "getp (JObject kvs) k = (case map_of kvs k of Some v \<Rightarrow> v | None \<Rightarrow> JUndefined)"
| "getp (JObjectProto kvs proto) k = (case map_of kvs k of Some v \<Rightarrow> v | None \<Rightarrow> getp proto k)"
| "getp v k = JUndefined"

fun isArray :: "jsval \<Rightarrow> bool" where
  "isArray (JArray xs) = True"
| "isArray v = False"

text \<open>
  The test \<open>k in v\<close> on an object, for the keys \<open>start\<close> and \<open>end\<close> the parser tests: the
  key is an own property or one of the prototype.
\<close>

fun hasProperty :: "jsval \<Rightarrow> string \<Rightarrow> bool" where
  "hasProperty (JObject kvs) k = (k \<in> set (map fst kvs))"
| "hasProperty (JObjectProto kvs proto) k = (k \<in> set (map fst kvs) \<or> hasProperty proto k)"
| "hasProperty v k = False"

text \<open>A string that may be absent (\<open>id?: string\<close>) is truthy when present and not empty.\<close>

fun truthy_str :: "string option \<Rightarrow> bool" where
  "truthy_str None = False"
| "truthy_str (Some s) = (s \<noteq> [])"

section \<open>Parser state\<close>

record RawChunk =
  index :: int
  chunk_id :: "string option"
  chunk_name :: "string option"
  arguments :: "string option"

record Tracked =
  tr_id :: string
  tr_name :: string
  hasStarted :: bool
  deltaBuffer :: "string list"

record StreamingToolCall =
  sc_id :: string
  sc_name :: string
  argumentsAccumulator :: string

datatype ToolCallStreamEvent =
    tool_call_start string string
  | tool_call_delta string string
  | tool_call_end string

datatype error = SyntaxError | TypeError | InvalidArguments string jsval

record NativeToolCall =
  call_id :: string
  call_name :: string
  call_arguments :: string

text \<open>
  What the parser writes to the console, one constructor per message of the source; the
  arguments are the values the message interpolates.
\<close>

datatype logline =
    WarnUnknownChunk string
  | WarnUnknownFinalize string
  | ErrorInvalidToolName string string
  | ErrorValidToolNames "string list"
  | WarnUnknownParameter string string
  | WarnValidParamNames "string list"
  | ErrorFailedToParseArguments error
  | ErrorToolCall NativeToolCall
  | ErrorInvalidMcpName string string
  | ErrorFailedToParseMcp error

text \<open>
  The two static maps of the class and the console.  Each map is a JavaScript \<open>Map\<close>:
  an association list in insertion order, where \<open>set\<close> on a key already there keeps
  its place (\<open>AList.update\<close>) and \<open>delete\<close> removes the key (\<open>AList.delete\<close>).
\<close>

record parser_state =
  streamingToolCalls :: "(string \<times> StreamingToolCall) list"
  rawChunkTracker :: "(int \<times> Tracked) list"
  console :: "logline list"

section \<open>Raw chunk tracker\<close>

definition or_empty :: "string option \<Rightarrow> string" where
  "or_empty s = (case s of Some n \<Rightarrow> n | None \<Rightarrow> [])"

text \<open>
  The part of \<open>processRawChunk\<close> that runs on the tracked entry of the chunk's index:
  the events pushed and the entry as mutated.
\<close>

definition trackedStep :: "RawChunk \<Rightarrow> Tracked \<Rightarrow> ToolCallStreamEvent list \<times> Tracked" where
  "trackedStep chunk tr1 =
    (let tr2 = (if truthy_str (chunk_name chunk)
                then tr1 \<lparr> tr_name := or_empty (chunk_name chunk) \<rparr> else tr1);
         starting = (\<not> hasStarted tr2 \<and> tr_name tr2 \<noteq> []);
         events1 =
           (if starting
            then tool_call_start (tr_id tr2) (tr_name tr2)
                 # map (tool_call_delta (tr_id tr2)) (deltaBuffer tr2)
            else []);
         tr3 = (if starting then tr2 \<lparr> hasStarted := True, deltaBuffer := [] \<rparr> else tr2);
         events2 =
           (if truthy_str (arguments chunk) \<and> hasStarted tr3
            then [tool_call_delta (tr_id tr3) (or_empty (arguments chunk))] else []);
         tr4 =
           (if truthy_str (arguments chunk) \<and> \<not> hasStarted tr3
            then tr3 \<lparr> deltaBuffer := deltaBuffer tr3 @ [or_empty (arguments chunk)] \<rparr>
            else tr3)
     in (events1 @ events2, tr4))"

definition processRawChunk :: "RawChunk \<Rightarrow> parser_state \<Rightarrow> ToolCallStreamEvent list \<times> parser_state" where
  "processRawChunk chunk st =
    (let tracked0 = map_of (rawChunkTracker st) (index chunk);
         tracked1 =
           (if truthy_str (chunk_id chunk) \<and> tracked0 = None
            then Some \<lparr> tr_id = or_empty (chunk_id chunk),
                        tr_name = or_empty (chunk_name chunk),
                        hasStarted = False, deltaBuffer = [] \<rparr>
            else tracked0)
     in case tracked1 of
          None \<Rightarrow> ([], st)
        | Some tr1 \<Rightarrow>
            (fst (trackedStep chunk tr1),
             st \<lparr> rawChunkTracker :=
                    AList.update (index chunk) (snd (trackedStep chunk tr1))
                      (rawChunkTracker st) \<rparr>))"

text \<open>The two finalisation loops push one event per visited entry, in the map's order.\<close>

definition processFinishReason :: "string option \<Rightarrow> parser_state \<Rightarrow> ToolCallStreamEvent list \<times> parser_state" where
  "processFinishReason finishReason st =
    (if finishReason = Some ''tool_calls'' \<and> 0 < length (rawChunkTracker st)
     then (foldl (\<lambda>events entry. events @ [tool_call_end (tr_id (snd entry))]) []
             (rawChunkTracker st), st)
     else ([], st))"

definition finalizeRawChunks :: "parser_state \<Rightarrow> ToolCallStreamEvent list \<times> parser_state" where
  "finalizeRawChunks st =
    (if 0 < length (rawChunkTracker st)
     then (foldl (\<lambda>events entry.
                    if hasStarted (snd entry) then events @ [tool_call_end (tr_id (snd entry))]
                    else events) []
             (rawChunkTracker st),
           st \<lparr> rawChunkTracker := [] \<rparr>)
     else ([], st))"

definition clearRawChunkState :: "parser_state \<Rightarrow> parser_state" where
  "clearRawChunkState st = st \<lparr> rawChunkTracker := [] \<rparr>"

section \<open>Collaborators outside the repository's sources\<close>

text \<open>
  The JavaScript built-ins and the libraries the parser calls are parameters of the
  model: the lenient decoder \<open>parseJSON\<close> of the package partial-json and the strict
  \<open>JSON.parse\<close> (\<open>None\<close> when they throw), the numeric conversions \<open>Number\<close> and
  \<open>parseInt\<close> (radix 10) whose results are doubles, and the names held by the injected
  registry of custom tools (\<open>customToolRegistry.has\<close> is membership).
\<close>

record runtime =
  parseJSON :: "string \<Rightarrow> jsval option"
  JSON_parse :: "string \<Rightarrow> jsval option"
  Number :: "jsval \<Rightarrow> jsnum"
  parseInt :: "string \<Rightarrow> jsnum"
  customToolRegistry :: "string list"

text \<open>
  A runtime given by finite tables of decoded documents, for evaluating the parser at
  concrete texts: the decoders answer on the listed texts and throw elsewhere.  Its
  \<open>Number\<close> is the identity on numbers and NaN elsewhere, its \<open>parseInt\<close> reads a
  string of decimal digits exactly (the rounding to a double is left out).
\<close>

fun Number_of_number :: "jsval \<Rightarrow> jsnum" where
  "Number_of_number (JNumber n) = n"
| "Number_of_number v = NaN"

definition parseInt_digits :: "string \<Rightarrow> jsnum" where
  "parseInt_digits s = Finite (of_nat (foldl (\<lambda>n c. 10 * n + (of_char c - 48)) 0 s))"

definition table_runtime :: "(string \<times> jsval) list \<Rightarrow> (string \<times> jsval) list \<Rightarrow> string list \<Rightarrow> runtime" where
  "table_runtime lenient strict custom =
     \<lparr> parseJSON = map_of lenient, JSON_parse = map_of strict,
       Number = Number_of_number, parseInt = parseInt_digits, customToolRegistry = custom \<rparr>"

section \<open>Tool names, parameter names and aliases\<close>

definition toolNames :: "string list" where
  "toolNames =
    [''execute_command'', ''read_file'', ''read_command_output'', ''write_to_file'',
     ''apply_diff'', ''search_and_replace'', ''search_replace'', ''edit_file'', ''apply_patch'',
     ''search_files'', ''list_files'', ''browser_action'', ''use_mcp_tool'',
     ''access_mcp_resource'', ''ask_followup_question'', ''attempt_completion'',
     ''switch_mode'', ''new_task'', ''fetch_instructions'', ''codebase_search'',
     ''update_todo_list'', ''run_slash_command'', ''generate_image'', ''custom_tool'',
     ''browser_open'', ''browser_close'', ''browser_action_input'', ''browser_navigate'',
     ''browser_reload'', ''browser_screenshot'', ''browser_execute_script'',
     ''browser_inspect_element'', ''browser_get_errors'', ''browser_get_console_logs'',
     ''browser_get_performance'', ''browser_get_state'', ''browser_set_viewport'',
     ''browser_get_network_requests'',
     ''project_get_active'', ''project_start'', ''project_stop'',
     ''canvas_list'', ''canvas_get_active'', ''canvas_create'', ''canvas_open'',
     ''component_add'', ''component_add_batch'', ''component_remove'', ''component_get_info'',
     ''component_list'', ''component_rebuild'', ''canvas_validate_components'']"

definition toolParamNames :: "string list" where
  "toolParamNames =
    [''command'', ''path'', ''content'', ''regex'', ''file_pattern'', ''recursive'', ''action'',
     ''url'', ''coordinate'', ''text'', ''server_name'', ''tool_name'', ''arguments'', ''uri'',
     ''question'', ''result'', ''diff'', ''mode_slug'', ''reason'', ''line'', ''mode'',
     ''message'', ''cwd'', ''follow_up'', ''task'', ''size'', ''query'', ''args'',
     ''start_line'', ''end_line'', ''todos'', ''prompt'', ''image'', ''files'', ''operations'',
     ''patch'', ''file_path'', ''old_string'', ''new_string'', ''expected_replacements'',
     ''artifact_id'', ''search'', ''offset'', ''limit'',
     ''selector'', ''includeInherited'', ''script'', ''ignoreCache'', ''limit'', ''type'',
     ''projectPath'', ''port'', ''name'', ''nameFilter'', ''sortBy'', ''sortDirection'',
     ''canvasId'', ''folderPath'', ''entryFile'', ''framework'', ''componentId'',
     ''deleteSourceCode'', ''components'',
     ''width'', ''height'', ''deviceScaleFactor'', ''mobile'',
     ''includeStaticAssets'', ''urlFilter'', ''method'', ''statusFilter'',
     ''key'', ''modifiers'', ''deltaX'', ''deltaY'']"

definition TOOL_ALIASES :: "(string \<times> string) list" where
  "TOOL_ALIASES = [(''write_file'', ''write_to_file'')]"

text \<open>
  Modelled from the spec: \<open>resolveToolAlias\<close> is imported from the module
  filter-tools-for-mode, which is not among the sources.  The spec (4.3): it looks the
  name up in the closed alias table and returns the input unchanged if absent.
\<close>

definition resolveToolAlias :: "string \<Rightarrow> string" where
  "resolveToolAlias nm = (case map_of TOOL_ALIASES nm of Some canonical \<Rightarrow> canonical | None \<Rightarrow> nm)"

section \<open>Names of dynamic MCP tools\<close>

text \<open>
  Modelled from the spec: the constants of the module utils/mcp-name, which is not among
  the sources.  The parser's comments and the spec (8) write a dynamic name as
  \<open>mcp--serverName--toolName\<close>: the reserved prefix is \<open>mcp\<close>, the separator \<open>--\<close>.
\<close>

definition MCP_TOOL_PREFIX :: string where
  "MCP_TOOL_PREFIX = ''mcp''"

text \<open>
  Modelled from the spec: the separator constant of utils/mcp-name, as above.
\<close>

definition MCP_TOOL_SEPARATOR :: string where
  "MCP_TOOL_SEPARATOR = ''--''"

text \<open>
  Modelled from the spec: the rewriting inside \<open>normalizeMcpToolName\<close>, every \<open>__\<close>
  becoming the separator \<open>--\<close>, from left to right.
\<close>

fun replace_underscores :: "string \<Rightarrow> string" where
  "replace_underscores [] = []"
| "replace_underscores [c] = [c]"
| "replace_underscores (c # d # cs) =
     (if c = CHR ''_'' \<and> d = CHR ''_'' then ''--'' @ replace_underscores cs
      else c # replace_underscores (d # cs))"

text \<open>
  Modelled from the spec: \<open>normalizeMcpToolName\<close> of utils/mcp-name.  The spec (4.4):
  it rewrites the alternate separator variant into the canonical dynamic-name format;
  the parser's comment gives \<open>mcp__serverName__toolName -> mcp--serverName--toolName\<close>.
  Any other name is returned as it is.
\<close>

definition normalizeMcpToolName :: "string \<Rightarrow> string" where
  "normalizeMcpToolName nm =
     (if prefix (MCP_TOOL_PREFIX @ ''__'') nm then replace_underscores nm else nm)"

text \<open>
  Modelled from the spec: the separator-delimited segments that \<open>parseMcpToolName\<close>
  counts, from left to right.
\<close>

fun split_separator :: "string \<Rightarrow> string list" where
  "split_separator [] = [[]]"
| "split_separator [c] = [[c]]"
| "split_separator (c # d # cs) =
     (if c = CHR ''-'' \<and> d = CHR ''-'' then [] # split_separator cs
      else (case split_separator (d # cs) of
              [] \<Rightarrow> [[c]]
            | seg # segs \<Rightarrow> (c # seg) # segs))"

text \<open>
  Modelled from the spec: \<open>parseMcpToolName\<close> of utils/mcp-name.  The spec (4.4): it
  splits a canonical dynamic name into exactly two components after the reserved prefix
  and separator, and returns \<open>null\<close> if the structure does not match, as for a wrong
  number of separator-delimited segments.
\<close>

definition parseMcpToolName :: "string \<Rightarrow> (string \<times> string) option" where
  "parseMcpToolName nm =
     (if prefix (MCP_TOOL_PREFIX @ MCP_TOOL_SEPARATOR) nm
      then (case split_separator (drop (length (MCP_TOOL_PREFIX @ MCP_TOOL_SEPARATOR)) nm) of
              [server, tool] \<Rightarrow> Some (server, tool)
            | _ \<Rightarrow> None)
      else None)"

section \<open>Argument projection\<close>

text \<open>
  Strings are lists of code units below 256.  \<open>trim\<close> removes the white space and
  line terminators of that range from both ends; \<open>toLowerCase\<close> maps the upper-case
  letters of that range.
\<close>

definition isWhiteSpace :: "char \<Rightarrow> bool" where
  "isWhiteSpace c = (of_char c \<in> set [9, 10, 11, 12, 13, 32, 160 :: nat])"

definition trim :: "string \<Rightarrow> string" where
  "trim s = rev (dropWhile isWhiteSpace (rev (dropWhile isWhiteSpace s)))"

definition toLowerCase_char :: "char \<Rightarrow> char" where
  "toLowerCase_char c =
     (let n = (of_char c :: nat)
      in if (65 \<le> n \<and> n \<le> 90) \<or> (192 \<le> n \<and> n \<le> 222 \<and> n \<noteq> 215)
         then char_of (n + 32) else c)"

definition toLowerCase :: "string \<Rightarrow> string" where
  "toLowerCase s = map toLowerCase_char s"

fun coerceOptionalBoolean :: "jsval \<Rightarrow> jsval" where
  "coerceOptionalBoolean (JBool b) = JBool b"
| "coerceOptionalBoolean (JString s) =
     (let lower = toLowerCase (trim s)
      in if lower = ''true'' then JBool True
         else if lower = ''false'' then JBool False
         else JUndefined)"
| "coerceOptionalBoolean v = JUndefined"

definition isDigit :: "char \<Rightarrow> bool" where
  "isDigit c = (c \<in> set ''0123456789'')"

text \<open>The match of \<open>/^(\d+)-(\d+)$/\<close>: the two groups, when the string matches.\<close>

definition matchRange :: "string \<Rightarrow> (string \<times> string) option" where
  "matchRange s =
     (let first = takeWhile isDigit s
      in case dropWhile isDigit s of
           [] \<Rightarrow> None
         | c # second \<Rightarrow>
             if c = CHR ''-'' \<and> first \<noteq> [] \<and> second \<noteq> [] \<and> list_all isDigit second
             then Some (first, second) else None)"

fun elements :: "jsval \<Rightarrow> jsval list" where
  "elements (JArray xs) = xs"
| "elements v = []"

text \<open>One element of \<open>line_ranges\<close>: the converted range, or \<open>None\<close> for \<open>null\<close>.\<close>

fun convertRange :: "runtime \<Rightarrow> jsval \<Rightarrow> jsval option" where
  "convertRange rt (JArray r) =
     (if 2 \<le> length r
      then Some (JObject [(''start'', JNumber (Number rt (r ! 0))),
                          (''end'', JNumber (Number rt (r ! 1)))])
      else None)"
| "convertRange rt (JObject kvs) =
     (if hasProperty (JObject kvs) ''start'' \<and> hasProperty (JObject kvs) ''end''
      then Some (JObject [(''start'', JNumber (Number rt (getp (JObject kvs) ''start''))),
                          (''end'', JNumber (Number rt (getp (JObject kvs) ''end'')))])
      else None)"
| "convertRange rt (JObjectProto kvs proto) =
     (if hasProperty (JObjectProto kvs proto) ''start''
         \<and> hasProperty (JObjectProto kvs proto) ''end''
      then Some (JObject
             [(''start'', JNumber (Number rt (getp (JObjectProto kvs proto) ''start''))),
              (''end'', JNumber (Number rt (getp (JObjectProto kvs proto) ''end'')))])
      else None)"
| "convertRange rt (JString s) =
     (case matchRange s of
        Some (a, b) \<Rightarrow>
          Some (JObject [(''start'', JNumber (parseInt rt a)), (''end'', JNumber (parseInt rt b))])
      | None \<Rightarrow> None)"
| "convertRange rt v = None"

text \<open>
  One element of \<open>files\<close>.  Reading \<open>file.path\<close> throws a TypeError when the element
  is \<open>null\<close> or \<open>undefined\<close>.
\<close>

definition convertFileEntry :: "runtime \<Rightarrow> jsval \<Rightarrow> error + jsval" where
  "convertFileEntry rt file =
     (if file = JNull \<or> file = JUndefined then Inl TypeError
      else Inr (JObject
             ((''path'', getp file ''path'')
              # (if truthy (getp file ''line_ranges'') \<and> isArray (getp file ''line_ranges'')
                 then [(''lineRanges'',
                        JArray (List.map_filter (convertRange rt)
                                  (elements (getp file ''line_ranges''))))]
                 else []))))"

fun convertFileEntries :: "runtime \<Rightarrow> jsval list \<Rightarrow> error + jsval list" where
  "convertFileEntries rt [] = Inr []"
| "convertFileEntries rt (file # files) =
     (case convertFileEntry rt file of
        Inl e \<Rightarrow> Inl e
      | Inr entry \<Rightarrow>
          (case convertFileEntries rt files of
             Inl e \<Rightarrow> Inl e
           | Inr entries \<Rightarrow> Inr (entry # entries)))"

text \<open>
  \<open>Object.entries\<close>: the own properties of an object (none of its prototype's), the
  indexed elements of an array or of a string, nothing for a number or a boolean, and a
  TypeError for \<open>null\<close> and \<open>undefined\<close>.
\<close>

fun decimal :: "nat \<Rightarrow> string" where
  "decimal n =
     (if n < 10 then [char_of (48 + n)] else decimal (n div 10) @ [char_of (48 + n mod 10)])"

fun entries :: "jsval \<Rightarrow> error + (string \<times> jsval) list" where
  "entries (JObject kvs) = Inr kvs"
| "entries (JObjectProto kvs proto) = Inr kvs"
| "entries (JArray xs) = Inr (zip (map decimal [0..<length xs]) xs)"
| "entries (JString s) = Inr (zip (map decimal [0..<length s]) (map (\<lambda>c. JString [c]) s))"
| "entries (JNumber n) = Inr []"
| "entries (JBool b) = Inr []"
| "entries JNull = Inl TypeError"
| "entries JUndefined = Inl TypeError"

text \<open>
  A value of the legacy \<open>params\<close> record: a string value as it is, any other value as
  the text \<open>JSON.stringify\<close> gives for it (the encoder itself is not modelled).
\<close>

datatype param_string = AsIs string | Stringified jsval

fun stringValue :: "jsval \<Rightarrow> param_string" where
  "stringValue (JString s) = AsIs s"
| "stringValue v = Stringified v"

record ToolUse =
  tu_name :: string
  tu_originalName :: "string option"
  tu_params :: "(string \<times> param_string) list"
  tu_partial :: bool
  tu_nativeArgs :: jsval

record McpToolUse =
  mcp_id :: string
  mcp_name :: string
  serverName :: string
  toolName :: string
  mcp_arguments :: jsval
  mcp_partial :: bool

datatype ToolResult = ToolUse_result ToolUse | McpToolUse_result McpToolUse

text \<open>
  \<open>guarded c props\<close> is \<open>if (c) { nativeArgs = { props } }\<close> on a \<open>nativeArgs\<close>
  that starts as \<open>undefined\<close>.
\<close>

definition guarded :: "bool \<Rightarrow> (string \<times> jsval) list \<Rightarrow> error + jsval" where
  "guarded c props = Inr (if c then JObject props else JUndefined)"

definition defined :: "jsval \<Rightarrow> bool" where
  "defined v = (v \<noteq> JUndefined)"

text \<open>
  The \<open>switch (name)\<close> of \<open>createPartialToolUse\<close>: the value of \<open>nativeArgs\<close> after it,
  or the error thrown inside it.  The cases are in the order of the source.
\<close>

definition partialNativeArgs :: "runtime \<Rightarrow> string \<Rightarrow> jsval \<Rightarrow> error + jsval" where
  "partialNativeArgs rt nm partialArgs =
    (let a = getp partialArgs in
     if nm = ''read_file'' then
       (if truthy (a ''files'') \<and> isArray (a ''files'')
        then (case convertFileEntries rt (elements (a ''files'')) of
                Inl e \<Rightarrow> Inl e
              | Inr files \<Rightarrow> Inr (JObject [(''files'', JArray files)]))
        else Inr JUndefined)
     else if nm = ''attempt_completion'' then
       guarded (truthy (a ''result''))
           [(''result'', a ''result'')]
     else if nm = ''execute_command'' then
       guarded (truthy (a ''command''))
           [(''command'', a ''command''), (''cwd'', a ''cwd'')]
     else if nm = ''write_to_file'' then
       guarded (truthy (a ''path'') \<or> truthy (a ''content''))
           [(''path'', a ''path''), (''content'', a ''content'')]
     else if nm = ''ask_followup_question'' then
       guarded (defined (a ''question'') \<or> defined (a ''follow_up''))
           [(''question'', a ''question''),
            (''follow_up'', if isArray (a ''follow_up'') then a ''follow_up'' else JUndefined)]
     else if nm = ''apply_diff'' then
       guarded (defined (a ''path'') \<or> defined (a ''diff''))
           [(''path'', a ''path''), (''diff'', a ''diff'')]
     else if nm = ''browser_action'' then
       guarded (defined (a ''action''))
           [(''action'', a ''action''), (''url'', a ''url''),
            (''coordinate'', a ''coordinate''), (''size'', a ''size''),
            (''text'', a ''text''), (''path'', a ''path'')]
     else if nm = ''codebase_search'' then
       guarded (defined (a ''query''))
           [(''query'', a ''query''), (''path'', a ''path'')]
     else if nm = ''fetch_instructions'' then
       guarded (defined (a ''task''))
           [(''task'', a ''task'')]
     else if nm = ''generate_image'' then
       guarded (defined (a ''prompt'') \<or> defined (a ''path''))
           [(''prompt'', a ''prompt''), (''path'', a ''path''),
            (''image'', a ''image'')]
     else if nm = ''run_slash_command'' then
       guarded (defined (a ''command''))
           [(''command'', a ''command''), (''args'', a ''args'')]
     else if nm = ''search_files'' then
       guarded (defined (a ''path'') \<or> defined (a ''regex''))
           [(''path'', a ''path''), (''regex'', a ''regex''),
            (''file_pattern'', a ''file_pattern'')]
     else if nm = ''switch_mode'' then
       guarded (defined (a ''mode_slug'') \<or> defined (a ''reason''))
           [(''mode_slug'', a ''mode_slug''), (''reason'', a ''reason'')]
     else if nm = ''update_todo_list'' then
       guarded (defined (a ''todos''))
           [(''todos'', a ''todos'')]
     else if nm = ''use_mcp_tool'' then
       guarded (defined (a ''server_name'') \<or> defined (a ''tool_name''))
           [(''server_name'', a ''server_name''), (''tool_name'', a ''tool_name''),
            (''arguments'', a ''arguments'')]
     else if nm = ''apply_patch'' then
       guarded (defined (a ''patch''))
           [(''patch'', a ''patch'')]
     else if nm = ''search_replace'' then
       guarded (defined (a ''file_path'') \<or> defined (a ''old_string'') \<or> defined (a ''new_string''))
           [(''file_path'', a ''file_path''), (''old_string'', a ''old_string''),
            (''new_string'', a ''new_string'')]
     else if nm = ''search_and_replace'' then
       guarded (defined (a ''path'') \<or> defined (a ''operations''))
           [(''path'', a ''path''), (''operations'', a ''operations'')]
     else if nm = ''edit_file'' then
       guarded (defined (a ''file_path'') \<or> defined (a ''old_string'') \<or> defined (a ''new_string''))
           [(''file_path'', a ''file_path''), (''old_string'', a ''old_string''),
            (''new_string'', a ''new_string''),
            (''expected_replacements'', a ''expected_replacements'')]
     else if nm = ''list_files'' then
       guarded (defined (a ''path''))
           [(''path'', a ''path''),
            (''recursive'', coerceOptionalBoolean (a ''recursive''))]
     else if nm = ''new_task'' then
       guarded (defined (a ''mode'') \<or> defined (a ''message''))
           [(''mode'', a ''mode''), (''message'', a ''message''),
            (''todos'', a ''todos'')]
     else if nm = ''browser_open'' then
       guarded (True)
           [(''url'', a ''url'')]
     else if nm = ''browser_close'' then
       guarded (True)
           []
     else if nm = ''browser_action_input'' then
       guarded (True)
           [(''action'', a ''action''), (''coordinate'', a ''coordinate''),
            (''text'', a ''text''), (''key'', a ''key''),
            (''modifiers'', a ''modifiers''), (''deltaX'', a ''deltaX''),
            (''deltaY'', a ''deltaY'')]
     else if nm = ''browser_navigate'' then
       guarded (True)
           [(''url'', a ''url'')]
     else if nm = ''browser_reload'' then
       guarded (True)
           [(''ignoreCache'', a ''ignoreCache'')]
     else if nm = ''browser_screenshot'' then
       guarded (True)
           []
     else if nm = ''browser_execute_script'' then
       guarded (True)
           [(''script'', a ''script'')]
     else if nm = ''browser_inspect_element'' then
       guarded (True)
           [(''selector'', a ''selector''),
            (''includeInherited'', a ''includeInherited'')]
     else if nm = ''browser_get_errors'' then
       guarded (True)
           [(''limit'', a ''limit'')]
     else if nm = ''browser_get_console_logs'' then
       guarded (True)
           [(''limit'', a ''limit''), (''type'', a ''type'')]
     else if nm = ''browser_get_performance'' then
       guarded (True)
           []
     else if nm = ''browser_get_state'' then
       guarded (True)
           []
     else if nm = ''browser_set_viewport'' then
       guarded (True)
           [(''width'', a ''width''), (''height'', a ''height''),
            (''deviceScaleFactor'', a ''deviceScaleFactor''),
            (''mobile'', a ''mobile'')]
     else if nm = ''browser_get_network_requests'' then
       guarded (True)
           [(''includeStaticAssets'', a ''includeStaticAssets''),
            (''urlFilter'', a ''urlFilter''), (''method'', a ''method''),
            (''statusFilter'', a ''statusFilter''), (''limit'', a ''limit'')]
     else if nm = ''project_get_active'' then
       guarded (True)
           []
     else if nm = ''project_start'' then
       guarded (True)
           [(''projectPath'', a ''projectPath''), (''port'', a ''port'')]
     else if nm = ''project_stop'' then
       guarded (True)
           []
     else if nm = ''canvas_list'' then
       guarded (True)
           [(''nameFilter'', a ''nameFilter''), (''sortBy'', a ''sortBy''),
            (''sortDirection'', a ''sortDirection'')]
     else if nm = ''canvas_get_active'' then
       guarded (True)
           []
     else if nm = ''canvas_create'' then
       guarded (True)
           [(''name'', a ''name'')]
     else if nm = ''canvas_open'' then
       guarded (True)
           [(''canvasId'', a ''canvasId''), (''name'', a ''name'')]
     else if nm = ''canvas_validate_components'' then
       guarded (True)
           [(''canvasId'', a ''canvasId'')]
     else if nm = ''component_add'' then
       guarded (True)
           [(''folderPath'', a ''folderPath''), (''canvasId'', a ''canvasId''),
            (''name'', a ''name''), (''entryFile'', a ''entryFile''),
            (''framework'', a ''framework'')]
     else if nm = ''component_add_batch'' then
       guarded (True)
           [(''components'', a ''components'')]
     else if nm = ''component_remove'' then
       guarded (True)
           [(''componentId'', a ''componentId''),
            (''deleteSourceCode'', a ''deleteSourceCode'')]
     else if nm = ''component_get_info'' then
       guarded (True)
           [(''componentId'', a ''componentId'')]
     else if nm = ''component_list'' then
       guarded (True)
           [(''canvasId'', a ''canvasId'')]
     else if nm = ''component_rebuild'' then
       guarded (True)
           [(''componentId'', a ''componentId'')]
     else Inr JUndefined)"

text \<open>
  The \<open>switch (resolvedName)\<close> of \<open>parseToolCall\<close>, in the order of the source; the
  default case passes the arguments of a registered custom tool through.
\<close>

definition strictNativeArgs :: "runtime \<Rightarrow> string \<Rightarrow> jsval \<Rightarrow> error + jsval" where
  "strictNativeArgs rt nm args =
    (let a = getp args in
     if nm = ''read_file'' then
       (if truthy (a ''files'') \<and> isArray (a ''files'')
        then (case convertFileEntries rt (elements (a ''files'')) of
                Inl e \<Rightarrow> Inl e
              | Inr files \<Rightarrow> Inr (JObject [(''files'', JArray files)]))
        else Inr JUndefined)
     else if nm = ''attempt_completion'' then
       guarded (truthy (a ''result''))
           [(''result'', a ''result'')]
     else if nm = ''execute_command'' then
       guarded (truthy (a ''command''))
           [(''command'', a ''command''), (''cwd'', a ''cwd'')]
     else if nm = ''apply_diff'' then
       guarded (defined (a ''path'') \<and> defined (a ''diff''))
           [(''path'', a ''path''), (''diff'', a ''diff'')]
     else if nm = ''search_and_replace'' then
       guarded (defined (a ''path'') \<and> defined (a ''operations'') \<and> isArray (a ''operations''))
           [(''path'', a ''path''), (''operations'', a ''operations'')]
     else if nm = ''ask_followup_question'' then
       guarded (defined (a ''question'') \<and> defined (a ''follow_up''))
           [(''question'', a ''question''), (''follow_up'', a ''follow_up'')]
     else if nm = ''browser_action'' then
       guarded (defined (a ''action''))
           [(''action'', a ''action''), (''url'', a ''url''),
            (''coordinate'', a ''coordinate''), (''size'', a ''size''),
            (''text'', a ''text''), (''path'', a ''path'')]
     else if nm = ''codebase_search'' then
       guarded (defined (a ''query''))
           [(''query'', a ''query''), (''path'', a ''path'')]
     else if nm = ''fetch_instructions'' then
       guarded (defined (a ''task''))
           [(''task'', a ''task'')]
     else if nm = ''generate_image'' then
       guarded (defined (a ''prompt'') \<and> defined (a ''path''))
           [(''prompt'', a ''prompt''), (''path'', a ''path''),
            (''image'', a ''image'')]
     else if nm = ''run_slash_command'' then
       guarded (defined (a ''command''))
           [(''command'', a ''command''), (''args'', a ''args'')]
     else if nm = ''search_files'' then
       guarded (defined (a ''path'') \<and> defined (a ''regex''))
           [(''path'', a ''path''), (''regex'', a ''regex''),
            (''file_pattern'', a ''file_pattern'')]
     else if nm = ''switch_mode'' then
       guarded (defined (a ''mode_slug'') \<and> defined (a ''reason''))
           [(''mode_slug'', a ''mode_slug''), (''reason'', a ''reason'')]
     else if nm = ''update_todo_list'' then
       guarded (defined (a ''todos''))
           [(''todos'', a ''todos'')]
     else if nm = ''read_command_output'' then
       guarded (defined (a ''artifact_id''))
           [(''artifact_id'', a ''artifact_id''), (''search'', a ''search''),
            (''offset'', a ''offset''), (''limit'', a ''limit'')]
     else if nm = ''write_to_file'' then
       guarded (defined (a ''path'') \<and> defined (a ''content''))
           [(''path'', a ''path''), (''content'', a ''content'')]
     else if nm = ''use_mcp_tool'' then
       guarded (defined (a ''server_name'') \<and> defined (a ''tool_name''))
           [(''server_name'', a ''server_name''), (''tool_name'', a ''tool_name''),
            (''arguments'', a ''arguments'')]
     else if nm = ''access_mcp_resource'' then
       guarded (defined (a ''server_name'') \<and> defined (a ''uri''))
           [(''server_name'', a ''server_name''), (''uri'', a ''uri'')]
     else if nm = ''apply_patch'' then
       guarded (defined (a ''patch''))
           [(''patch'', a ''patch'')]
     else if nm = ''search_replace'' then
       guarded (defined (a ''file_path'') \<and> defined (a ''old_string'') \<and> defined (a ''new_string''))
           [(''file_path'', a ''file_path''), (''old_string'', a ''old_string''),
            (''new_string'', a ''new_string'')]
     else if nm = ''edit_file'' then
       guarded (defined (a ''file_path'') \<and> defined (a ''old_string'') \<and> defined (a ''new_string''))
           [(''file_path'', a ''file_path''), (''old_string'', a ''old_string''),
            (''new_string'', a ''new_string''),
            (''expected_replacements'', a ''expected_replacements'')]
     else if nm = ''list_files'' then
       guarded (defined (a ''path''))
           [(''path'', a ''path''),
            (''recursive'', coerceOptionalBoolean (a ''recursive''))]
     else if nm = ''new_task'' then
       guarded (defined (a ''mode'') \<and> defined (a ''message''))
           [(''mode'', a ''mode''), (''message'', a ''message''),
            (''todos'', a ''todos'')]
     else if nm = ''browser_open'' then
       guarded (True)
           [(''url'', a ''url'')]
     else if nm = ''browser_close'' then
       guarded (True)
           []
     else if nm = ''browser_action_input'' then
       guarded (defined (a ''action''))
           [(''action'', a ''action''), (''coordinate'', a ''coordinate''),
            (''text'', a ''text''), (''key'', a ''key''),
            (''modifiers'', a ''modifiers''), (''deltaX'', a ''deltaX''),
            (''deltaY'', a ''deltaY'')]
     else if nm = ''browser_navigate'' then
       guarded (defined (a ''url''))
           [(''url'', a ''url'')]
     else if nm = ''browser_reload'' then
       guarded (True)
           [(''ignoreCache'', a ''ignoreCache'')]
     else if nm = ''browser_screenshot'' then
       guarded (True)
           []
     else if nm = ''browser_execute_script'' then
       guarded (defined (a ''script''))
           [(''script'', a ''script'')]
     else if nm = ''browser_inspect_element'' then
       guarded (defined (a ''selector''))
           [(''selector'', a ''selector''),
            (''includeInherited'', a ''includeInherited'')]
     else if nm = ''browser_get_errors'' then
       guarded (True)
           [(''limit'', a ''limit'')]
     else if nm = ''browser_get_console_logs'' then
       guarded (True)
           [(''limit'', a ''limit''), (''type'', a ''type'')]
     else if nm = ''browser_get_performance'' then
       guarded (True)
           []
     else if nm = ''browser_get_state'' then
       guarded (True)
           []
     else if nm = ''browser_set_viewport'' then
       guarded (True)
           [(''width'', a ''width''), (''height'', a ''height''),
            (''deviceScaleFactor'', a ''deviceScaleFactor''),
            (''mobile'', a ''mobile'')]
     else if nm = ''browser_get_network_requests'' then
       guarded (True)
           [(''includeStaticAssets'', a ''includeStaticAssets''),
            (''urlFilter'', a ''urlFilter''), (''method'', a ''method''),
            (''statusFilter'', a ''statusFilter''), (''limit'', a ''limit'')]
     else if nm = ''project_get_active'' then
       guarded (True)
           []
     else if nm = ''project_start'' then
       guarded (defined (a ''projectPath''))
           [(''projectPath'', a ''projectPath''), (''port'', a ''port'')]
     else if nm = ''project_stop'' then
       guarded (True)
           []
     else if nm = ''canvas_list'' then
       guarded (True)
           [(''nameFilter'', a ''nameFilter''), (''sortBy'', a ''sortBy''),
            (''sortDirection'', a ''sortDirection'')]
     else if nm = ''canvas_get_active'' then
       guarded (True)
           []
     else if nm = ''canvas_create'' then
       guarded (defined (a ''name''))
           [(''name'', a ''name'')]
     else if nm = ''canvas_open'' then
       guarded (True)
           [(''canvasId'', a ''canvasId''), (''name'', a ''name'')]
     else if nm = ''canvas_validate_components'' then
       guarded (True)
           [(''canvasId'', a ''canvasId'')]
     else if nm = ''component_add'' then
       guarded (defined (a ''folderPath''))
           [(''folderPath'', a ''folderPath''), (''canvasId'', a ''canvasId''),
            (''name'', a ''name''), (''entryFile'', a ''entryFile''),
            (''framework'', a ''framework'')]
     else if nm = ''component_add_batch'' then
       guarded (defined (a ''components''))
           [(''components'', a ''components'')]
     else if nm = ''component_remove'' then
       guarded (defined (a ''componentId''))
           [(''componentId'', a ''componentId''),
            (''deleteSourceCode'', a ''deleteSourceCode'')]
     else if nm = ''component_get_info'' then
       guarded (defined (a ''componentId''))
           [(''componentId'', a ''componentId'')]
     else if nm = ''component_list'' then
       guarded (defined (a ''canvasId''))
           [(''canvasId'', a ''canvasId'')]
     else if nm = ''component_rebuild'' then
       guarded (defined (a ''componentId''))
           [(''componentId'', a ''componentId'')]
     else Inr (if nm \<in> set (customToolRegistry rt) then args else JUndefined))"

section \<open>Partial and final tool uses\<close>

text \<open>
  The loop of \<open>createPartialToolUse\<close> over \<open>Object.entries(partialArgs)\<close>: a known
  parameter name is stored with its string value.
\<close>

definition partialParams :: "(string \<times> jsval) list \<Rightarrow> (string \<times> param_string) list" where
  "partialParams kvs =
     foldl (\<lambda>params kv.
              if fst kv \<in> set toolParamNames
              then AList.update (fst kv) (stringValue (snd kv)) params else params)
       [] kvs"

definition createPartialToolUse ::
    "runtime \<Rightarrow> string \<Rightarrow> string \<Rightarrow> jsval \<Rightarrow> bool \<Rightarrow> string option \<Rightarrow> error + ToolUse" where
  "createPartialToolUse rt ident nm partialArgs is_partial originalName =
     (case entries partialArgs of
        Inl e \<Rightarrow> Inl e
      | Inr kvs \<Rightarrow>
          (case partialNativeArgs rt nm partialArgs of
             Inl e \<Rightarrow> Inl e
           | Inr nativeArgs \<Rightarrow>
               Inr \<lparr> tu_name = nm,
                     tu_originalName = (if truthy_str originalName then originalName else None),
                     tu_params = partialParams kvs,
                     tu_partial = is_partial,
                     tu_nativeArgs = nativeArgs \<rparr>))"

text \<open>
  The loop of \<open>parseToolCall\<close> over \<open>Object.entries(args)\<close>: \<open>files\<close> of \<open>read_file\<close>
  is skipped, an unknown parameter of a tool that is not a custom tool is skipped with
  two warnings, anything else is stored with its string value.
\<close>

definition strictParams ::
    "runtime \<Rightarrow> string \<Rightarrow> (string \<times> jsval) list \<Rightarrow> (string \<times> param_string) list \<times> logline list" where
  "strictParams rt resolvedName kvs =
     foldl (\<lambda>acc kv.
              if resolvedName = ''read_file'' \<and> fst kv = ''files'' then acc
              else if fst kv \<notin> set toolParamNames \<and> resolvedName \<notin> set (customToolRegistry rt)
              then (fst acc,
                    snd acc @ [WarnUnknownParameter (fst kv) resolvedName,
                               WarnValidParamNames toolParamNames])
              else (AList.update (fst kv) (stringValue (snd kv)) (fst acc), snd acc))
       ([], []) kvs"

text \<open>
  The body of the \<open>try\<close> block of \<open>parseToolCall\<close>: the tool use, or the error thrown,
  and the warnings written before either.
\<close>

definition parseToolCall_try ::
    "runtime \<Rightarrow> NativeToolCall \<Rightarrow> string \<Rightarrow> (error + ToolUse) \<times> logline list" where
  "parseToolCall_try rt toolCall resolvedName =
     (case (if call_arguments toolCall = [] then Some (JObject [])
            else JSON_parse rt (call_arguments toolCall)) of
        None \<Rightarrow> (Inl SyntaxError, [])
      | Some args \<Rightarrow>
          (case entries args of
             Inl e \<Rightarrow> (Inl e, [])
           | Inr kvs \<Rightarrow>
               (let (params, warnings) = strictParams rt resolvedName kvs
                in case strictNativeArgs rt resolvedName args of
                     Inl e \<Rightarrow> (Inl e, warnings)
                   | Inr nativeArgs \<Rightarrow>
                       if \<not> truthy nativeArgs \<and> resolvedName \<notin> set (customToolRegistry rt)
                       then (Inl (InvalidArguments resolvedName args), warnings)
                       else (Inr \<lparr> tu_name = resolvedName,
                                   tu_originalName =
                                     (if call_name toolCall \<noteq> resolvedName
                                      then Some (call_name toolCall) else None),
                                   tu_params = params,
                                   tu_partial = False,
                                   tu_nativeArgs = nativeArgs \<rparr>,
                             warnings))))"

definition parseDynamicMcpTool :: "runtime \<Rightarrow> NativeToolCall \<Rightarrow> ToolResult option \<times> logline list" where
  "parseDynamicMcpTool rt toolCall =
     (case JSON_parse rt (if call_arguments toolCall = [] then ''{}'' else call_arguments toolCall) of
        None \<Rightarrow> (None, [ErrorFailedToParseMcp SyntaxError])
      | Some args \<Rightarrow>
          (let normalizedName = normalizeMcpToolName (call_name toolCall)
           in case parseMcpToolName normalizedName of
                None \<Rightarrow> (None, [ErrorInvalidMcpName (call_name toolCall) normalizedName])
              | Some (server, tool) \<Rightarrow>
                  (Some (McpToolUse_result
                     \<lparr> mcp_id = call_id toolCall, mcp_name = call_name toolCall,
                       serverName = server, toolName = tool,
                       mcp_arguments = args, mcp_partial = False \<rparr>), [])))"

definition parseToolCall :: "runtime \<Rightarrow> NativeToolCall \<Rightarrow> ToolResult option \<times> logline list" where
  "parseToolCall rt toolCall =
     (let mcpPrefix = MCP_TOOL_PREFIX @ MCP_TOOL_SEPARATOR;
          normalizedName = normalizeMcpToolName (call_name toolCall)
      in if prefix mcpPrefix normalizedName
         then parseDynamicMcpTool rt (toolCall \<lparr> call_name := normalizedName \<rparr>)
         else
           (let resolvedName = resolveToolAlias (call_name toolCall)
            in if resolvedName \<notin> set toolNames \<and> resolvedName \<notin> set (customToolRegistry rt)
               then (None, [ErrorInvalidToolName (call_name toolCall) resolvedName,
                            ErrorValidToolNames toolNames])
               else
                 (case parseToolCall_try rt toolCall resolvedName of
                    (Inr result, warnings) \<Rightarrow> (Some (ToolUse_result result), warnings)
                  | (Inl e, warnings) \<Rightarrow>
                      (None, warnings @ [ErrorFailedToParseArguments e, ErrorToolCall toolCall]))))"

section \<open>Streaming call registry\<close>

definition startStreamingToolCall :: "string \<Rightarrow> string \<Rightarrow> parser_state \<Rightarrow> parser_state" where
  "startStreamingToolCall ident nm st =
     st \<lparr> streamingToolCalls :=
            AList.update ident \<lparr> sc_id = ident, sc_name = nm, argumentsAccumulator = [] \<rparr>
              (streamingToolCalls st) \<rparr>"

definition clearAllStreamingToolCalls :: "parser_state \<Rightarrow> parser_state" where
  "clearAllStreamingToolCalls st = st \<lparr> streamingToolCalls := [] \<rparr>"

definition hasActiveStreamingToolCalls :: "parser_state \<Rightarrow> bool" where
  "hasActiveStreamingToolCalls st = (0 < length (streamingToolCalls st))"

definition processStreamingChunk ::
    "runtime \<Rightarrow> string \<Rightarrow> string \<Rightarrow> parser_state \<Rightarrow> ToolUse option \<times> parser_state" where
  "processStreamingChunk rt ident chunk st =
     (case map_of (streamingToolCalls st) ident of
        None \<Rightarrow> (None, st \<lparr> console := console st @ [WarnUnknownChunk ident] \<rparr>)
      | Some toolCall0 \<Rightarrow>
          (let toolCall = toolCall0 \<lparr> argumentsAccumulator := argumentsAccumulator toolCall0 @ chunk \<rparr>;
               st' = st \<lparr> streamingToolCalls := AList.update ident toolCall (streamingToolCalls st) \<rparr>;
               mcpPrefix = MCP_TOOL_PREFIX @ MCP_TOOL_SEPARATOR
           in if prefix mcpPrefix (sc_name toolCall) then (None, st')
              else
                (case parseJSON rt (argumentsAccumulator toolCall) of
                   None \<Rightarrow> (None, st')
                 | Some partialArgs \<Rightarrow>
                     (let resolvedName = resolveToolAlias (sc_name toolCall);
                          originalName = (if sc_name toolCall \<noteq> resolvedName
                                          then Some (sc_name toolCall) else None)
                      in case createPartialToolUse rt (sc_id toolCall) resolvedName
                                (if truthy partialArgs then partialArgs else JObject [])
                                True originalName of
                           Inl e \<Rightarrow> (None, st')
                         | Inr result \<Rightarrow> (Some result, st')))))"

definition finalizeStreamingToolCall ::
    "runtime \<Rightarrow> string \<Rightarrow> parser_state \<Rightarrow> ToolResult option \<times> parser_state" where
  "finalizeStreamingToolCall rt ident st =
     (case map_of (streamingToolCalls st) ident of
        None \<Rightarrow> (None, st \<lparr> console := console st @ [WarnUnknownFinalize ident] \<rparr>)
      | Some toolCall \<Rightarrow>
          (let (finalToolUse, messages) =
                 parseToolCall rt \<lparr> call_id = sc_id toolCall, call_name = sc_name toolCall,
                                    call_arguments = argumentsAccumulator toolCall \<rparr>
           in (finalToolUse,
               st \<lparr> streamingToolCalls := AList.delete ident (streamingToolCalls st),
                    console := console st @ messages \<rparr>)))"

section \<open>Required fields\<close>

text \<open>
  The fields a tool's argument type declares without \<open>?\<close> in \<open>NativeToolArgs\<close>; for
  the Roopik tools, the \<open>required\<close> list of the tool's schema (which adds \<open>canvasId\<close>
  for \<open>component_list\<close>).  The argument types of \<open>browser_action\<close> and
  \<open>generate_image\<close> are declared outside the sources; their entries hold the fields the
  strict projection requires.  \<open>custom_tool\<close> has no argument type and no entry.
\<close>

definition requiredTable :: "(string \<times> string list) list" where
  "requiredTable =
    [(''access_mcp_resource'', [''server_name'', ''uri'']),
     (''read_file'', [''files'']),
     (''read_command_output'', [''artifact_id'']),
     (''attempt_completion'', [''result'']),
     (''execute_command'', [''command'']),
     (''apply_diff'', [''path'', ''diff'']),
     (''search_and_replace'', [''path'', ''operations'']),
     (''search_replace'', [''file_path'', ''old_string'', ''new_string'']),
     (''edit_file'', [''file_path'', ''old_string'', ''new_string'']),
     (''apply_patch'', [''patch'']),
     (''list_files'', [''path'']),
     (''new_task'', [''mode'', ''message'']),
     (''ask_followup_question'', [''question'', ''follow_up'']),
     (''browser_action'', [''action'']),
     (''codebase_search'', [''query'']),
     (''fetch_instructions'', [''task'']),
     (''generate_image'', [''prompt'', ''path'']),
     (''run_slash_command'', [''command'']),
     (''search_files'', [''path'', ''regex'']),
     (''switch_mode'', [''mode_slug'', ''reason'']),
     (''update_todo_list'', [''todos'']),
     (''use_mcp_tool'', [''server_name'', ''tool_name'']),
     (''write_to_file'', [''path'', ''content'']),
     (''browser_open'', []),
     (''browser_close'', []),
     (''browser_action_input'', [''action'']),
     (''browser_navigate'', [''url'']),
     (''browser_reload'', []),
     (''browser_screenshot'', []),
     (''browser_execute_script'', [''script'']),
     (''browser_inspect_element'', [''selector'']),
     (''browser_get_errors'', []),
     (''browser_get_console_logs'', []),
     (''browser_get_performance'', []),
     (''browser_get_state'', []),
     (''browser_set_viewport'', []),
     (''browser_get_network_requests'', []),
     (''project_get_active'', []),
     (''project_start'', [''projectPath'']),
     (''project_stop'', []),
     (''canvas_list'', []),
     (''canvas_get_active'', []),
     (''canvas_create'', [''name'']),
     (''canvas_open'', []),
     (''canvas_validate_components'', []),
     (''component_add'', [''folderPath'']),
     (''component_add_batch'', [''components'']),
     (''component_remove'', [''componentId'']),
     (''component_get_info'', [''componentId'']),
     (''component_list'', [''canvasId'']),
     (''component_rebuild'', [''componentId''])]"

definition requiredFields :: "string \<Rightarrow> string list" where
  "requiredFields nm = (case map_of requiredTable nm of Some ks \<Rightarrow> ks | None \<Rightarrow> [])"

text \<open>The name a result carries for the history, when it differs from the tool's name.\<close>

fun originalName_of :: "ToolResult \<Rightarrow> string option" where
  "originalName_of (ToolUse_result r) = tu_originalName r"
| "originalName_of (McpToolUse_result m) = None"

definition empty_state :: parser_state where
  "empty_state = \<lparr> streamingToolCalls = [], rawChunkTracker = [], console = [] \<rparr>"

text \<open>The messages written with \<open>console.error\<close>.\<close>

fun is_error :: "logline \<Rightarrow> bool" where
  "is_error (ErrorInvalidToolName emitted resolved) = True"
| "is_error (ErrorValidToolNames names) = True"
| "is_error (ErrorFailedToParseArguments e) = True"
| "is_error (ErrorToolCall toolCall) = True"
| "is_error (ErrorInvalidMcpName emitted normalized) = True"
| "is_error (ErrorFailedToParseMcp e) = True"
| "is_error message = False"

section \<open>Feeding a stream\<close>

text \<open>The accumulated argument text of a call id, when the registry holds the id.\<close>

definition accumulated :: "parser_state \<Rightarrow> string \<Rightarrow> string option" where
  "accumulated st ident = map_option argumentsAccumulator (map_of (streamingToolCalls st) ident)"

text \<open>A sequence of deltas, each addressed to a call id, applied in arrival order.\<close>

fun appendDeltas :: "runtime \<Rightarrow> (string \<times> string) list \<Rightarrow> parser_state \<Rightarrow> parser_state" where
  "appendDeltas rt [] st = st"
| "appendDeltas rt (d # ds) st = appendDeltas rt ds (snd (processStreamingChunk rt (fst d) (snd d) st))"

text \<open>A sequence of raw chunks through the tracker: the events, in the order emitted.\<close>

fun processRawChunks :: "RawChunk list \<Rightarrow> parser_state \<Rightarrow> ToolCallStreamEvent list \<times> parser_state" where
  "processRawChunks [] st = ([], st)"
| "processRawChunks (c # cs) st =
     (let r1 = processRawChunk c st; r2 = processRawChunks cs (snd r1)
      in (fst r1 @ fst r2, snd r2))"

text \<open>
  Modelled from the spec: the consumer of the lifecycle events is not among the sources.
  The control flow of the spec (2): a start event begins the call in the registry, each
  delta event is fed to it, and the end of a call finalizes it.
\<close>

fun applyEvent :: "runtime \<Rightarrow> ToolCallStreamEvent \<Rightarrow> parser_state \<Rightarrow> parser_state" where
  "applyEvent rt (tool_call_start ident nm) st = startStreamingToolCall ident nm st"
| "applyEvent rt (tool_call_delta ident delta) st = snd (processStreamingChunk rt ident delta st)"
| "applyEvent rt (tool_call_end ident) st = snd (finalizeStreamingToolCall rt ident st)"

definition applyEvents :: "runtime \<Rightarrow> ToolCallStreamEvent list \<Rightarrow> parser_state \<Rightarrow> parser_state" where
  "applyEvents rt events st = foldl (\<lambda>s event. applyEvent rt event s) st events"

text \<open>
  The argument fragments addressed to the call of a stream index: those of the chunks
  for the index, from the chunk that first brings an id for it.
\<close>

definition fragmentsFor :: "int \<Rightarrow> RawChunk list \<Rightarrow> string list" where
  "fragmentsFor i cs =
     map (\<lambda>c. or_empty (arguments c))
       (filter (\<lambda>c. index c = i)
          (dropWhile (\<lambda>c. \<not> (index c = i \<and> truthy_str (chunk_id c))) cs))"

text \<open>
  What a list of events does to the accumulated text of one call id: the reading of the
  events that the proofs below compare the registry with.
\<close>

fun eventEffect :: "string \<Rightarrow> ToolCallStreamEvent \<Rightarrow> string option \<Rightarrow> string option" where
  "eventEffect a (tool_call_start ident nm) x = (if ident = a then Some [] else x)"
| "eventEffect a (tool_call_delta ident delta) x =
     (if ident = a then map_option (\<lambda>text. text @ delta) x else x)"
| "eventEffect a (tool_call_end ident) x = (if ident = a then None else x)"

definition eventsEffect :: "string \<Rightarrow> ToolCallStreamEvent list \<Rightarrow> string option \<Rightarrow> string option" where
  "eventsEffect a events x = foldl (\<lambda>y event. eventEffect a event y) x events"

text \<open>
  The text the registry holds for the call of a tracked entry once the entry's buffer is
  flushed: the registry's text when the entry has started, the buffered fragments before.
\<close>

definition pendingText :: "Tracked \<Rightarrow> string option \<Rightarrow> string option" where
  "pendingText e x = (if hasStarted e then x else Some (concat (deltaBuffer e)))"

section \<open>Properties of the raw chunk tracker\<close>

lemma foldl_push: "foldl (\<lambda>events entry. events @ [f entry]) acc xs = acc @ map f xs"
  by (induction xs arbitrary: acc) simp_all

lemma foldl_push_if:
  "foldl (\<lambda>events entry. if P entry then events @ [f entry] else events) acc xs
     = acc @ map f (filter P xs)"
  by (induction xs arbitrary: acc) simp_all

lemma processRawChunk_keys:
  "set (map fst (rawChunkTracker st))
     \<subseteq> set (map fst (rawChunkTracker (snd (processRawChunk c st))))"
  by (auto simp: processRawChunk_def Let_def AList.dom_update split: option.splits)

lemma processRawChunk_distinct:
  "distinct (map fst (rawChunkTracker st))
     \<Longrightarrow> distinct (map fst (rawChunkTracker (snd (processRawChunk c st))))"
  by (auto simp: processRawChunk_def Let_def AList.distinct_update split: option.splits)

text \<open>
  Claim C4.  On the finish reason \<open>tool_calls\<close>, \<open>processFinishReason\<close> emits one end
  event for every entry of the tracker, in the tracker's order, whether or not the entry
  has started; \<open>finalizeRawChunks\<close> emits end events for the started entries only and
  leaves the tracker empty.
\<close>

theorem finish_reason_and_finalize_events:
  "fst (processFinishReason (Some ''tool_calls'') st)
     = map (\<lambda>entry. tool_call_end (tr_id (snd entry))) (rawChunkTracker st)
   \<and> fst (finalizeRawChunks st)
     = map (\<lambda>entry. tool_call_end (tr_id (snd entry)))
         (filter (\<lambda>entry. hasStarted (snd entry)) (rawChunkTracker st))
   \<and> rawChunkTracker (snd (finalizeRawChunks st)) = []"
  by (simp add: processFinishReason_def finalizeRawChunks_def foldl_push foldl_push_if)

text \<open>
  A call whose id arrived without a name has not started: the finish reason still ends
  it, the hard finalize does not.
\<close>

theorem finish_reason_and_finalize_events_witness:
  "rawChunkTracker (snd (processRawChunk
       \<lparr> index = 0, chunk_id = Some ''call_1'', chunk_name = None, arguments = Some ''{'' \<rparr>
       empty_state))
     = [(0, \<lparr> tr_id = ''call_1'', tr_name = [], hasStarted = False, deltaBuffer = [''{''] \<rparr>)]
   \<and> fst (processFinishReason (Some ''tool_calls'') (snd (processRawChunk
       \<lparr> index = 0, chunk_id = Some ''call_1'', chunk_name = None, arguments = Some ''{'' \<rparr>
       empty_state)))
     = [tool_call_end ''call_1'']
   \<and> fst (finalizeRawChunks (snd (processRawChunk
       \<lparr> index = 0, chunk_id = Some ''call_1'', chunk_name = None, arguments = Some ''{'' \<rparr>
       empty_state)))
     = []"
  using finish_reason_and_finalize_events [of "snd (processRawChunk
       \<lparr> index = 0, chunk_id = Some ''call_1'', chunk_name = None, arguments = Some ''{'' \<rparr>
       empty_state)"]
  by (simp add: processRawChunk_def trackedStep_def empty_state_def or_empty_def Let_def)

text \<open>
  Claim C10.  \<open>processFinishReason\<close> returns the state it was given, so the
  \<open>finalizeRawChunks\<close> that follows emits an end event again for every started entry.
  \<open>processRawChunk\<close> keeps every tracked index, the four operations of the streaming
  registry leave the tracker as it is, and \<open>finalizeRawChunks\<close> and
  \<open>clearRawChunkState\<close> empty it.
\<close>

theorem finish_reason_keeps_tracker:
  "snd (processFinishReason finishReason st) = st
   \<and> fst (finalizeRawChunks (snd (processFinishReason finishReason st)))
     = map (\<lambda>entry. tool_call_end (tr_id (snd entry)))
         (filter (\<lambda>entry. hasStarted (snd entry)) (rawChunkTracker st))
   \<and> set (map fst (rawChunkTracker st))
       \<subseteq> set (map fst (rawChunkTracker (snd (processRawChunk chunk st))))
   \<and> rawChunkTracker (startStreamingToolCall ident nm st) = rawChunkTracker st
   \<and> rawChunkTracker (clearAllStreamingToolCalls st) = rawChunkTracker st
   \<and> rawChunkTracker (snd (processStreamingChunk rt ident delta st)) = rawChunkTracker st
   \<and> rawChunkTracker (snd (finalizeStreamingToolCall rt ident st)) = rawChunkTracker st
   \<and> rawChunkTracker (snd (finalizeRawChunks st)) = []
   \<and> rawChunkTracker (clearRawChunkState st) = []"
proof -
  have a: "snd (processFinishReason finishReason st) = st"
    by (simp add: processFinishReason_def)
  have b: "fst (finalizeRawChunks st)
     = map (\<lambda>entry. tool_call_end (tr_id (snd entry)))
         (filter (\<lambda>entry. hasStarted (snd entry)) (rawChunkTracker st))"
    by (simp add: finalizeRawChunks_def foldl_push_if)
  have c: "rawChunkTracker (snd (processStreamingChunk rt ident delta st)) = rawChunkTracker st"
    by (simp add: processStreamingChunk_def Let_def split: option.splits sum.splits)
  have d: "rawChunkTracker (snd (finalizeStreamingToolCall rt ident st)) = rawChunkTracker st"
    by (simp add: finalizeStreamingToolCall_def Let_def split: option.splits prod.splits)
  have e: "rawChunkTracker (snd (finalizeRawChunks st)) = []"
    by (simp add: finalizeRawChunks_def)
  show ?thesis
    using a b c d e processRawChunk_keys [of st chunk]
    by (simp add: startStreamingToolCall_def clearAllStreamingToolCalls_def
        clearRawChunkState_def)
qed

text \<open>
  A started call is ended by the finish reason and once more by the hard finalize that
  follows it.
\<close>

theorem finish_reason_keeps_tracker_witness:
  "fst (processFinishReason (Some ''tool_calls'') (snd (processRawChunk
       \<lparr> index = 0, chunk_id = Some ''call_1'', chunk_name = Some ''list_files'',
         arguments = None \<rparr> empty_state)))
     = [tool_call_end ''call_1'']
   \<and> fst (finalizeRawChunks (snd (processFinishReason (Some ''tool_calls'')
       (snd (processRawChunk
          \<lparr> index = 0, chunk_id = Some ''call_1'', chunk_name = Some ''list_files'',
            arguments = None \<rparr> empty_state)))))
     = [tool_call_end ''call_1'']"
  using finish_reason_keeps_tracker [of "Some ''tool_calls''" "snd (processRawChunk
       \<lparr> index = 0, chunk_id = Some ''call_1'', chunk_name = Some ''list_files'',
         arguments = None \<rparr> empty_state)"]
  by (simp add: processRawChunk_def trackedStep_def processFinishReason_def empty_state_def or_empty_def Let_def)

section \<open>Properties of the streaming registry\<close>

lemmas eval_defs =
  finalizeStreamingToolCall_def processStreamingChunk_def startStreamingToolCall_def
  parseToolCall_def parseDynamicMcpTool_def parseToolCall_try_def createPartialToolUse_def
  partialParams_def strictParams_def strictNativeArgs_def partialNativeArgs_def guarded_def
  defined_def normalizeMcpToolName_def parseMcpToolName_def MCP_TOOL_PREFIX_def
  MCP_TOOL_SEPARATOR_def resolveToolAlias_def TOOL_ALIASES_def toolNames_def
  toolParamNames_def table_runtime_def empty_state_def Let_def

lemma resolveToolAlias_cases:
  "resolveToolAlias nm = nm \<or> (nm = ''write_file'' \<and> resolveToolAlias nm = ''write_to_file'')"
  by (simp add: resolveToolAlias_def TOOL_ALIASES_def)

lemma alias_not_empty: "resolveToolAlias nm \<noteq> nm \<Longrightarrow> nm \<noteq> []"
  using resolveToolAlias_cases [of nm] by auto

lemma alias_not_mcp:
  "prefix (MCP_TOOL_PREFIX @ MCP_TOOL_SEPARATOR) (normalizeMcpToolName nm)
     \<Longrightarrow> resolveToolAlias nm = nm"
  using resolveToolAlias_cases [of nm]
  by (auto simp: normalizeMcpToolName_def MCP_TOOL_PREFIX_def MCP_TOOL_SEPARATOR_def)

lemma processStreamingChunk_unknown:
  "map_of (streamingToolCalls st) ident = None \<Longrightarrow>
   processStreamingChunk rt ident chunk st
     = (None, st \<lparr> console := console st @ [WarnUnknownChunk ident] \<rparr>)"
  by (simp add: processStreamingChunk_def)

lemma finalizeStreamingToolCall_unknown:
  "map_of (streamingToolCalls st) ident = None \<Longrightarrow>
   finalizeStreamingToolCall rt ident st
     = (None, st \<lparr> console := console st @ [WarnUnknownFinalize ident] \<rparr>)"
  by (simp add: finalizeStreamingToolCall_def)

lemma finalizeStreamingToolCall_known:
  "map_of (streamingToolCalls st) ident = Some tc \<Longrightarrow>
   finalizeStreamingToolCall rt ident st
     = (fst (parseToolCall rt \<lparr> call_id = sc_id tc, call_name = sc_name tc,
                                  call_arguments = argumentsAccumulator tc \<rparr>),
        st \<lparr> streamingToolCalls := AList.delete ident (streamingToolCalls st),
             console := console st
               @ snd (parseToolCall rt \<lparr> call_id = sc_id tc, call_name = sc_name tc,
                                         call_arguments = argumentsAccumulator tc \<rparr>) \<rparr>)"
  by (simp add: finalizeStreamingToolCall_def split: prod.splits)

lemma finalizeStreamingToolCall_deletes:
  "map_of (streamingToolCalls (snd (finalizeStreamingToolCall rt ident st))) ident = None"
  by (simp add: finalizeStreamingToolCall_def AList.delete_conv' split: option.splits prod.splits)

lemma finalizeStreamingToolCall_others:
  "other \<noteq> ident \<Longrightarrow>
   map_of (streamingToolCalls (snd (finalizeStreamingToolCall rt ident st))) other
     = map_of (streamingToolCalls st) other"
  by (simp add: finalizeStreamingToolCall_def AList.delete_conv' split: option.splits prod.splits)

lemma parseToolCall_originalName:
  "fst (parseToolCall rt call) = Some res \<Longrightarrow>
   originalName_of res
     = (if resolveToolAlias (call_name call) \<noteq> call_name call
        then Some (call_name call) else None)"
  by (auto simp: parseToolCall_def parseDynamicMcpTool_def parseToolCall_try_def Let_def
      alias_not_mcp split: if_splits option.splits sum.splits prod.splits)

lemma processStreamingChunk_originalName:
  "map_of (streamingToolCalls st) ident = Some tc \<Longrightarrow>
   fst (processStreamingChunk rt ident chunk st) = Some r \<Longrightarrow>
   tu_name r = resolveToolAlias (sc_name tc) \<and>
   tu_originalName r
     = (if resolveToolAlias (sc_name tc) \<noteq> sc_name tc then Some (sc_name tc) else None)"
  using alias_not_empty [of "sc_name tc"]
  by (auto simp: processStreamingChunk_def createPartialToolUse_def Let_def
      split: if_splits option.splits sum.splits)

text \<open>
  Claim C6.  After \<open>finalizeStreamingToolCall\<close> the call id is no longer in the
  registry, whatever was returned.  For an id that is not in the registry (never begun,
  or already finalized), \<open>processStreamingChunk\<close> and \<open>finalizeStreamingToolCall\<close>
  write one warning, return \<open>null\<close> and leave both maps as they are.
\<close>

theorem finalize_deletes_and_unknown_id_is_harmless:
  "map_of (streamingToolCalls (snd (finalizeStreamingToolCall rt ident st))) ident = None
   \<and> (map_of (streamingToolCalls st) ident = None \<longrightarrow>
        processStreamingChunk rt ident chunk st
          = (None, st \<lparr> console := console st @ [WarnUnknownChunk ident] \<rparr>)
        \<and> finalizeStreamingToolCall rt ident st
          = (None, st \<lparr> console := console st @ [WarnUnknownFinalize ident] \<rparr>))"
  by (simp add: finalizeStreamingToolCall_deletes processStreamingChunk_unknown
      finalizeStreamingToolCall_unknown)

text \<open>
  The call \<open>c1\<close> of \<open>browser_close\<close> finalizes from empty text and is gone; a second
  finalize and a late delta for it, and a delta for an id never begun beside a live
  call, only warn.
\<close>

theorem finalize_deletes_and_unknown_id_is_harmless_witness:
  "finalizeStreamingToolCall (table_runtime [] [] []) ''c1''
       (startStreamingToolCall ''c1'' ''browser_close'' empty_state)
     = (Some (ToolUse_result
          \<lparr> tu_name = ''browser_close'', tu_originalName = None, tu_params = [],
            tu_partial = False, tu_nativeArgs = JObject [] \<rparr>),
        \<lparr> streamingToolCalls = [], rawChunkTracker = [], console = [] \<rparr>)
   \<and> finalizeStreamingToolCall (table_runtime [] [] []) ''c1''
       \<lparr> streamingToolCalls = [], rawChunkTracker = [], console = [] \<rparr>
     = (None, \<lparr> streamingToolCalls = [], rawChunkTracker = [],
                console = [WarnUnknownFinalize ''c1''] \<rparr>)
   \<and> processStreamingChunk (table_runtime [] [] []) ''c1'' ''{}''
       \<lparr> streamingToolCalls = [], rawChunkTracker = [], console = [] \<rparr>
     = (None, \<lparr> streamingToolCalls = [], rawChunkTracker = [],
                console = [WarnUnknownChunk ''c1''] \<rparr>)
   \<and> processStreamingChunk (table_runtime [] [] []) ''c2'' ''{}''
       (startStreamingToolCall ''c1'' ''browser_close'' empty_state)
     = (None, \<lparr> streamingToolCalls =
                  [(''c1'', \<lparr> sc_id = ''c1'', sc_name = ''browser_close'',
                             argumentsAccumulator = [] \<rparr>)],
                rawChunkTracker = [], console = [WarnUnknownChunk ''c2''] \<rparr>)"
  using finalize_deletes_and_unknown_id_is_harmless
          [of "table_runtime [] [] []" "''c1''"
              "\<lparr> streamingToolCalls = [], rawChunkTracker = [], console = [] \<rparr>" "''{}''"]
        finalize_deletes_and_unknown_id_is_harmless
          [of "table_runtime [] [] []" "''c2''"
              "startStreamingToolCall ''c1'' ''browser_close'' empty_state" "''{}''"]
  by (simp add: eval_defs)

text \<open>
  Claim C8.  A partial tool use returned by \<open>processStreamingChunk\<close> carries the
  resolved name, and its \<open>originalName\<close> is the name registered for the call exactly
  when alias resolution changes that name, and absent otherwise.  The same holds for
  every result of \<open>parseToolCall\<close> and of \<open>finalizeStreamingToolCall\<close>; a dynamic MCP
  result, whose name no alias changes, carries none.
\<close>

theorem original_name_iff_alias:
  "(map_of (streamingToolCalls st) ident = Some tc
      \<and> fst (processStreamingChunk rt ident chunk st) = Some r \<longrightarrow>
        tu_name r = resolveToolAlias (sc_name tc)
      \<and> tu_originalName r
          = (if resolveToolAlias (sc_name tc) \<noteq> sc_name tc then Some (sc_name tc) else None))
   \<and> (fst (parseToolCall rt call) = Some res \<longrightarrow>
        originalName_of res
          = (if resolveToolAlias (call_name call) \<noteq> call_name call
             then Some (call_name call) else None))
   \<and> (map_of (streamingToolCalls st) ident = Some tc
      \<and> fst (finalizeStreamingToolCall rt ident st) = Some res' \<longrightarrow>
        originalName_of res'
          = (if resolveToolAlias (sc_name tc) \<noteq> sc_name tc then Some (sc_name tc) else None))"
proof (intro conjI impI)
  assume "map_of (streamingToolCalls st) ident = Some tc
            \<and> fst (processStreamingChunk rt ident chunk st) = Some r"
  then show "tu_name r = resolveToolAlias (sc_name tc)"
    and "tu_originalName r
          = (if resolveToolAlias (sc_name tc) \<noteq> sc_name tc then Some (sc_name tc) else None)"
    using processStreamingChunk_originalName [of st ident tc rt chunk r] by simp_all
next
  assume "fst (parseToolCall rt call) = Some res"
  then show "originalName_of res
          = (if resolveToolAlias (call_name call) \<noteq> call_name call
             then Some (call_name call) else None)"
    by (rule parseToolCall_originalName)
next
  assume a: "map_of (streamingToolCalls st) ident = Some tc
            \<and> fst (finalizeStreamingToolCall rt ident st) = Some res'"
  then have "fst (parseToolCall rt \<lparr> call_id = sc_id tc, call_name = sc_name tc,
                                     call_arguments = argumentsAccumulator tc \<rparr>) = Some res'"
    using finalizeStreamingToolCall_known [of st ident tc rt] by auto
  from parseToolCall_originalName [OF this]
  show "originalName_of res'
          = (if resolveToolAlias (sc_name tc) \<noteq> sc_name tc then Some (sc_name tc) else None)"
    by simp
qed

text \<open>
  The alias \<open>write_file\<close> is kept as the original name of the partial tool use; the
  final tool use of \<open>browser_close\<close>, which is no alias, carries none.
\<close>

theorem original_name_iff_alias_witness:
  \<open>fst (processStreamingChunk
          (table_runtime [(''{"path":"a.txt"}'', JObject [(''path'', JString ''a.txt'')])] [] [])
          ''c1'' ''{"path":"a.txt"}'' (startStreamingToolCall ''c1'' ''write_file'' empty_state))
     = Some \<lparr> tu_name = ''write_to_file'', tu_originalName = Some ''write_file'',
              tu_params = [(''path'', AsIs ''a.txt'')], tu_partial = True,
              tu_nativeArgs = JObject [(''path'', JString ''a.txt''), (''content'', JUndefined)] \<rparr>
   \<and> fst (parseToolCall (table_runtime [] [] [])
          \<lparr> call_id = ''c2'', call_name = ''browser_close'', call_arguments = [] \<rparr>)
     = Some (ToolUse_result
          \<lparr> tu_name = ''browser_close'', tu_originalName = None, tu_params = [],
            tu_partial = False, tu_nativeArgs = JObject [] \<rparr>)
   \<and> originalName_of (ToolUse_result
          \<lparr> tu_name = ''browser_close'', tu_originalName = None, tu_params = [],
            tu_partial = False, tu_nativeArgs = JObject [] \<rparr>) = None\<close>
  using original_name_iff_alias
          [where rt = "table_runtime [([CHR ''{'', CHR 0x22, CHR ''p'', CHR ''a'', CHR ''t'',
             CHR ''h'', CHR 0x22, CHR '':'', CHR 0x22, CHR ''a'', CHR ''.'',
             CHR ''t'', CHR ''x'', CHR ''t'', CHR 0x22, CHR ''}''], JObject [(''path'', JString ''a.txt'')])] [] []"
             and ident = "''c1''"
             and st = "startStreamingToolCall ''c1'' ''write_file'' empty_state"
             and tc = "\<lparr> sc_id = ''c1'', sc_name = ''write_file'', argumentsAccumulator = [] \<rparr>"
             and chunk = "[CHR ''{'', CHR 0x22, CHR ''p'', CHR ''a'', CHR ''t'',
             CHR ''h'', CHR 0x22, CHR '':'', CHR 0x22, CHR ''a'', CHR ''.'',
             CHR ''t'', CHR ''x'', CHR ''t'', CHR 0x22, CHR ''}'']"
             and r = "\<lparr> tu_name = ''write_to_file'', tu_originalName = Some ''write_file'',
              tu_params = [(''path'', AsIs ''a.txt'')], tu_partial = True,
              tu_nativeArgs = JObject [(''path'', JString ''a.txt''), (''content'', JUndefined)] \<rparr>"
             and call = "\<lparr> call_id = ''c2'', call_name = ''browser_close'', call_arguments = [] \<rparr>"
             and res = "ToolUse_result
          \<lparr> tu_name = ''browser_close'', tu_originalName = None, tu_params = [],
            tu_partial = False, tu_nativeArgs = JObject [] \<rparr>"]
  by (simp add: eval_defs)

lemma static_not_mcp:
  "resolveToolAlias nm \<in> set toolNames \<Longrightarrow>
   \<not> prefix (MCP_TOOL_PREFIX @ MCP_TOOL_SEPARATOR) (normalizeMcpToolName nm)"
  using resolveToolAlias_cases [of nm]
  by (auto simp: toolNames_def normalizeMcpToolName_def MCP_TOOL_PREFIX_def
      MCP_TOOL_SEPARATOR_def)

lemma normalize_idem:
  "normalizeMcpToolName (normalizeMcpToolName nm) = normalizeMcpToolName nm"
  by (auto simp: normalizeMcpToolName_def MCP_TOOL_PREFIX_def prefix_def)

text \<open>
  What the strict projection returns for a static tool that is not a custom tool has
  every required field, and the arguments had it.
\<close>

lemma strict_required:
  assumes "nm \<in> set toolNames" "nm \<notin> set (customToolRegistry rt)"
      "strictNativeArgs rt nm args = Inr na" "truthy na" "k \<in> set (requiredFields nm)"
  shows "defined (getp na k) \<and> defined (getp args k)"
  using assms
  unfolding toolNames_def
  apply (simp only: set_simps insert_iff empty_iff)
  apply (elim disjE)
  apply (auto simp: strictNativeArgs_def requiredFields_def requiredTable_def guarded_def
      defined_def Let_def split: if_splits sum.splits)
  done

lemma no_required_names:
  "map_of requiredTable nm = Some [] \<Longrightarrow>
   nm \<in> set [''browser_open'', ''browser_close'', ''browser_reload'', ''browser_screenshot'',
     ''browser_get_errors'', ''browser_get_console_logs'', ''browser_get_performance'',
     ''browser_get_state'', ''browser_set_viewport'', ''browser_get_network_requests'',
     ''project_get_active'', ''project_stop'', ''canvas_list'', ''canvas_get_active'',
     ''canvas_open'', ''canvas_validate_components'']"
  by (simp add: requiredTable_def split: if_splits)

lemma parseToolCall_empty_no_required:
  assumes "map_of requiredTable nm = Some []"
  shows "\<exists>na. parseToolCall rt \<lparr> call_id = i, call_name = nm, call_arguments = [] \<rparr>
     = (Some (ToolUse_result \<lparr> tu_name = nm, tu_originalName = None, tu_params = [],
            tu_partial = False, tu_nativeArgs = na \<rparr>), [])
     \<and> truthy na \<and> (\<forall>k. getp na k = JUndefined)"
  using no_required_names [OF assms]
  apply (simp only: set_simps insert_iff empty_iff)
  apply (elim disjE)
  apply (simp_all add: eval_defs)
  done

lemma strictNativeArgs_empty_object:
  "\<exists>na. strictNativeArgs rt nm (JObject []) = Inr na"
  by (auto simp: strictNativeArgs_def guarded_def Let_def)

lemma parseToolCall_empty_static:
  assumes "call_arguments call = []"
      "\<not> prefix (MCP_TOOL_PREFIX @ MCP_TOOL_SEPARATOR) (normalizeMcpToolName (call_name call))"
      "resolveToolAlias (call_name call) \<in> set toolNames
         \<or> resolveToolAlias (call_name call) \<in> set (customToolRegistry rt)"
  shows "(\<exists>r. parseToolCall rt call = (Some (ToolUse_result r), []) \<and> tu_params r = []
              \<and> \<not> tu_partial r)
       \<or> parseToolCall rt call
           = (None, [ErrorFailedToParseArguments
                       (InvalidArguments (resolveToolAlias (call_name call)) (JObject [])),
                     ErrorToolCall call])"
proof -
  obtain na where na: "strictNativeArgs rt (resolveToolAlias (call_name call)) (JObject []) = Inr na"
    using strictNativeArgs_empty_object by blast
  show ?thesis
    using assms na
    by (auto simp: parseToolCall_def parseToolCall_try_def strictParams_def Let_def)
qed

lemma parseToolCall_invalid_json:
  assumes "call_arguments call \<noteq> []" "JSON_parse rt (call_arguments call) = None"
  shows "parseToolCall rt call
     = (None,
        if prefix (MCP_TOOL_PREFIX @ MCP_TOOL_SEPARATOR) (normalizeMcpToolName (call_name call))
        then [ErrorFailedToParseMcp SyntaxError]
        else if resolveToolAlias (call_name call) \<notin> set toolNames
                \<and> resolveToolAlias (call_name call) \<notin> set (customToolRegistry rt)
        then [ErrorInvalidToolName (call_name call) (resolveToolAlias (call_name call)),
              ErrorValidToolNames toolNames]
        else [ErrorFailedToParseArguments SyntaxError, ErrorToolCall call])"
  using assms
  by (simp add: parseToolCall_def parseToolCall_try_def parseDynamicMcpTool_def Let_def)

lemma parseToolCall_empty_mcp:
  assumes "call_arguments call = []"
      "prefix (MCP_TOOL_PREFIX @ MCP_TOOL_SEPARATOR) (normalizeMcpToolName (call_name call))"
      "JSON_parse rt ''{}'' = Some (JObject [])"
      "parseMcpToolName (normalizeMcpToolName (call_name call)) = Some (server, tool)"
  shows "parseToolCall rt call
     = (Some (McpToolUse_result
          \<lparr> mcp_id = call_id call, mcp_name = normalizeMcpToolName (call_name call),
            serverName = server, toolName = tool, mcp_arguments = JObject [],
            mcp_partial = False \<rparr>), [])"
  using assms
  by (simp add: parseToolCall_def parseDynamicMcpTool_def Let_def normalize_idem)

text \<open>
  Claim C9.  Finalizing a known call whose accumulated text is empty does not decode
  the text: a tool with no required field yields its final tool use, with no parameter and
  typed arguments in which nothing is defined; for any other static or custom tool the
  outcome is a tool use with no parameter or the failure for invalid arguments on the empty
  object, never a syntax error; a dynamic MCP tool gets the empty object that \<open>{}\<close>
  decodes to.  When the text is not empty and the strict decoder throws, finalize returns
  \<open>null\<close>, removes the call and writes the error to the console.
\<close>

theorem empty_text_is_empty_object_and_invalid_json_fails:
  "(map_of (streamingToolCalls st) ident = Some tc \<and> argumentsAccumulator tc = []
      \<and> map_of requiredTable (sc_name tc) = Some [] \<longrightarrow>
      (\<exists>na. finalizeStreamingToolCall rt ident st
         = (Some (ToolUse_result
              \<lparr> tu_name = sc_name tc, tu_originalName = None, tu_params = [],
                tu_partial = False, tu_nativeArgs = na \<rparr>),
            st \<lparr> streamingToolCalls := AList.delete ident (streamingToolCalls st) \<rparr>)
         \<and> truthy na \<and> (\<forall>k. getp na k = JUndefined)))
   \<and> (map_of (streamingToolCalls st) ident = Some tc \<and> argumentsAccumulator tc = []
      \<and> \<not> prefix (MCP_TOOL_PREFIX @ MCP_TOOL_SEPARATOR) (normalizeMcpToolName (sc_name tc))
      \<and> (resolveToolAlias (sc_name tc) \<in> set toolNames
            \<or> resolveToolAlias (sc_name tc) \<in> set (customToolRegistry rt)) \<longrightarrow>
      (\<exists>r. fst (finalizeStreamingToolCall rt ident st) = Some (ToolUse_result r)
            \<and> tu_params r = [] \<and> \<not> tu_partial r
            \<and> console (snd (finalizeStreamingToolCall rt ident st)) = console st)
      \<or> (fst (finalizeStreamingToolCall rt ident st) = None
          \<and> console (snd (finalizeStreamingToolCall rt ident st))
             = console st
               @ [ErrorFailedToParseArguments
                    (InvalidArguments (resolveToolAlias (sc_name tc)) (JObject [])),
                  ErrorToolCall \<lparr> call_id = sc_id tc, call_name = sc_name tc,
                                  call_arguments = [] \<rparr>]))
   \<and> (map_of (streamingToolCalls st) ident = Some tc \<and> argumentsAccumulator tc = []
      \<and> prefix (MCP_TOOL_PREFIX @ MCP_TOOL_SEPARATOR) (normalizeMcpToolName (sc_name tc))
      \<and> JSON_parse rt ''{}'' = Some (JObject [])
      \<and> parseMcpToolName (normalizeMcpToolName (sc_name tc)) = Some (server, tool) \<longrightarrow>
      fst (finalizeStreamingToolCall rt ident st)
        = Some (McpToolUse_result
            \<lparr> mcp_id = sc_id tc, mcp_name = normalizeMcpToolName (sc_name tc),
              serverName = server, toolName = tool, mcp_arguments = JObject [],
              mcp_partial = False \<rparr>))
   \<and> (map_of (streamingToolCalls st) ident = Some tc \<and> argumentsAccumulator tc \<noteq> []
      \<and> JSON_parse rt (argumentsAccumulator tc) = None \<longrightarrow>
      fst (finalizeStreamingToolCall rt ident st) = None
      \<and> map_of (streamingToolCalls (snd (finalizeStreamingToolCall rt ident st))) ident = None
      \<and> console (snd (finalizeStreamingToolCall rt ident st))
         = console st
           @ (if prefix (MCP_TOOL_PREFIX @ MCP_TOOL_SEPARATOR) (normalizeMcpToolName (sc_name tc))
              then [ErrorFailedToParseMcp SyntaxError]
              else if resolveToolAlias (sc_name tc) \<notin> set toolNames
                      \<and> resolveToolAlias (sc_name tc) \<notin> set (customToolRegistry rt)
              then [ErrorInvalidToolName (sc_name tc) (resolveToolAlias (sc_name tc)),
                    ErrorValidToolNames toolNames]
              else [ErrorFailedToParseArguments SyntaxError,
                    ErrorToolCall \<lparr> call_id = sc_id tc, call_name = sc_name tc,
                                    call_arguments = argumentsAccumulator tc \<rparr>]))"
proof (intro conjI impI; (elim conjE)?)
  assume k: "map_of (streamingToolCalls st) ident = Some tc"
    and e: "argumentsAccumulator tc = []"
    and r: "map_of requiredTable (sc_name tc) = Some []"
  from parseToolCall_empty_no_required [OF r, of rt "sc_id tc"]
  show "\<exists>na. finalizeStreamingToolCall rt ident st
         = (Some (ToolUse_result
              \<lparr> tu_name = sc_name tc, tu_originalName = None, tu_params = [],
                tu_partial = False, tu_nativeArgs = na \<rparr>),
            st \<lparr> streamingToolCalls := AList.delete ident (streamingToolCalls st) \<rparr>)
         \<and> truthy na \<and> (\<forall>k. getp na k = JUndefined)"
    using finalizeStreamingToolCall_known [OF k, of rt] e by auto
next
  assume k: "map_of (streamingToolCalls st) ident = Some tc"
    and e: "argumentsAccumulator tc = []"
    and m: "\<not> prefix (MCP_TOOL_PREFIX @ MCP_TOOL_SEPARATOR) (normalizeMcpToolName (sc_name tc))"
    and v: "resolveToolAlias (sc_name tc) \<in> set toolNames
            \<or> resolveToolAlias (sc_name tc) \<in> set (customToolRegistry rt)"
  from parseToolCall_empty_static [of "\<lparr> call_id = sc_id tc, call_name = sc_name tc,
                                  call_arguments = [] \<rparr>" rt] m v
  show "(\<exists>r. fst (finalizeStreamingToolCall rt ident st) = Some (ToolUse_result r)
            \<and> tu_params r = [] \<and> \<not> tu_partial r
            \<and> console (snd (finalizeStreamingToolCall rt ident st)) = console st)
      \<or> (fst (finalizeStreamingToolCall rt ident st) = None
          \<and> console (snd (finalizeStreamingToolCall rt ident st))
             = console st
               @ [ErrorFailedToParseArguments
                    (InvalidArguments (resolveToolAlias (sc_name tc)) (JObject [])),
                  ErrorToolCall \<lparr> call_id = sc_id tc, call_name = sc_name tc,
                                  call_arguments = [] \<rparr>])"
    using finalizeStreamingToolCall_known [OF k, of rt] e by auto
next
  assume k: "map_of (streamingToolCalls st) ident = Some tc"
    and e: "argumentsAccumulator tc = []"
    and m: "prefix (MCP_TOOL_PREFIX @ MCP_TOOL_SEPARATOR) (normalizeMcpToolName (sc_name tc))"
    and j: "JSON_parse rt ''{}'' = Some (JObject [])"
    and p: "parseMcpToolName (normalizeMcpToolName (sc_name tc)) = Some (server, tool)"
  from parseToolCall_empty_mcp [of "\<lparr> call_id = sc_id tc, call_name = sc_name tc,
                                  call_arguments = [] \<rparr>" rt server tool] m j p
  show "fst (finalizeStreamingToolCall rt ident st)
        = Some (McpToolUse_result
            \<lparr> mcp_id = sc_id tc, mcp_name = normalizeMcpToolName (sc_name tc),
              serverName = server, toolName = tool, mcp_arguments = JObject [],
              mcp_partial = False \<rparr>)"
    using finalizeStreamingToolCall_known [OF k, of rt] e by simp
next
  assume k: "map_of (streamingToolCalls st) ident = Some tc"
    and e: "argumentsAccumulator tc \<noteq> []"
    and j: "JSON_parse rt (argumentsAccumulator tc) = None"
  note p = parseToolCall_invalid_json [of "\<lparr> call_id = sc_id tc, call_name = sc_name tc,
                                  call_arguments = argumentsAccumulator tc \<rparr>" rt]
  show "fst (finalizeStreamingToolCall rt ident st) = None"
    using finalizeStreamingToolCall_known [OF k, of rt] p e j by simp
  show "map_of (streamingToolCalls (snd (finalizeStreamingToolCall rt ident st))) ident = None"
    by (rule finalizeStreamingToolCall_deletes)
  show "console (snd (finalizeStreamingToolCall rt ident st))
         = console st
           @ (if prefix (MCP_TOOL_PREFIX @ MCP_TOOL_SEPARATOR) (normalizeMcpToolName (sc_name tc))
              then [ErrorFailedToParseMcp SyntaxError]
              else if resolveToolAlias (sc_name tc) \<notin> set toolNames
                      \<and> resolveToolAlias (sc_name tc) \<notin> set (customToolRegistry rt)
              then [ErrorInvalidToolName (sc_name tc) (resolveToolAlias (sc_name tc)),
                    ErrorValidToolNames toolNames]
              else [ErrorFailedToParseArguments SyntaxError,
                    ErrorToolCall \<lparr> call_id = sc_id tc, call_name = sc_name tc,
                                    call_arguments = argumentsAccumulator tc \<rparr>])"
    using finalizeStreamingToolCall_known [OF k, of rt] p e j by simp
qed

text \<open>
  \<open>browser_close\<close> finalizes from empty text although the decoder of this runtime
  throws on every text; \<open>canvas_create\<close> on the truncated text \<open>{"na\<close> fails.
\<close>

theorem empty_text_is_empty_object_and_invalid_json_fails_witness:
  \<open>finalizeStreamingToolCall (table_runtime [] [] []) ''c1''
       (startStreamingToolCall ''c1'' ''browser_close'' empty_state)
     = (Some (ToolUse_result
          \<lparr> tu_name = ''browser_close'', tu_originalName = None, tu_params = [],
            tu_partial = False, tu_nativeArgs = JObject [] \<rparr>),
        \<lparr> streamingToolCalls = [], rawChunkTracker = [], console = [] \<rparr>)
   \<and> finalizeStreamingToolCall (table_runtime [] [] []) ''c2''
       \<lparr> streamingToolCalls =
           [(''c2'', \<lparr> sc_id = ''c2'', sc_name = ''canvas_create'',
                      argumentsAccumulator = ''{"na'' \<rparr>)],
         rawChunkTracker = [], console = [] \<rparr>
     = (None,
        \<lparr> streamingToolCalls = [], rawChunkTracker = [],
          console = [ErrorFailedToParseArguments SyntaxError,
                     ErrorToolCall \<lparr> call_id = ''c2'', call_name = ''canvas_create'',
                                     call_arguments = ''{"na'' \<rparr>] \<rparr>)\<close>
  using empty_text_is_empty_object_and_invalid_json_fails
          [where rt = "table_runtime [] [] []" and ident = "''c1''"
             and st = "startStreamingToolCall ''c1'' ''browser_close'' empty_state"
             and tc = "\<lparr> sc_id = ''c1'', sc_name = ''browser_close'',
                         argumentsAccumulator = [] \<rparr>"]
        empty_text_is_empty_object_and_invalid_json_fails
          [where rt = "table_runtime [] [] []" and ident = "''c2''"
             and st = "\<lparr> streamingToolCalls =
                           [(''c2'', \<lparr> sc_id = ''c2'', sc_name = ''canvas_create'',
                                      argumentsAccumulator = [CHR ''{'', CHR 0x22, CHR ''n'', CHR ''a''] \<rparr>)],
                         rawChunkTracker = [], console = [] \<rparr>"
             and tc = "\<lparr> sc_id = ''c2'', sc_name = ''canvas_create'',
                         argumentsAccumulator = [CHR ''{'', CHR 0x22, CHR ''n'', CHR ''a''] \<rparr>"]
  by (simp add: eval_defs)

lemma parseToolCall_failure_logged:
  "fst (parseToolCall rt call) = None \<Longrightarrow>
   snd (parseToolCall rt call) \<noteq> [] \<and> is_error (last (snd (parseToolCall rt call)))"
  by (auto simp: parseToolCall_def parseDynamicMcpTool_def Let_def
      split: if_splits option.splits sum.splits prod.splits)

lemma parseToolCall_unknown_name:
  assumes "\<not> prefix (MCP_TOOL_PREFIX @ MCP_TOOL_SEPARATOR) (normalizeMcpToolName (call_name call))"
      "resolveToolAlias (call_name call) \<notin> set toolNames"
      "resolveToolAlias (call_name call) \<notin> set (customToolRegistry rt)"
  shows "parseToolCall rt call
     = (None, [ErrorInvalidToolName (call_name call) (resolveToolAlias (call_name call)),
               ErrorValidToolNames toolNames])"
  using assms by (simp add: parseToolCall_def Let_def)

lemma parseToolCall_malformed_mcp:
  assumes "prefix (MCP_TOOL_PREFIX @ MCP_TOOL_SEPARATOR) (normalizeMcpToolName (call_name call))"
      "parseMcpToolName (normalizeMcpToolName (call_name call)) = None"
  shows "fst (parseToolCall rt call) = None"
  using assms
  by (simp add: parseToolCall_def parseDynamicMcpTool_def Let_def normalize_idem
      split: option.splits)

lemma parseToolCall_missing_required:
  assumes "resolveToolAlias (call_name call) \<in> set toolNames"
      "resolveToolAlias (call_name call) \<notin> set (customToolRegistry rt)"
      "(if call_arguments call = [] then Some (JObject [])
        else JSON_parse rt (call_arguments call)) = Some args"
      "k \<in> set (requiredFields (resolveToolAlias (call_name call)))"
      "\<not> defined (getp args k)"
  shows "fst (parseToolCall rt call) = None"
proof -
  have m: "\<not> prefix (MCP_TOOL_PREFIX @ MCP_TOOL_SEPARATOR) (normalizeMcpToolName (call_name call))"
    using assms(1) by (rule static_not_mcp)
  have "\<forall>r w. parseToolCall_try rt call (resolveToolAlias (call_name call)) \<noteq> (Inr r, w)"
    using assms strict_required [of "resolveToolAlias (call_name call)" rt args _ k]
    by (auto simp: parseToolCall_try_def Let_def split: sum.splits prod.splits if_splits)
  then show ?thesis
    using m assms(1)
    by (auto simp: parseToolCall_def Let_def split: prod.splits sum.splits)
qed

lemma parseToolCall_static_result:
  assumes "resolveToolAlias (call_name call) \<in> set toolNames"
      "resolveToolAlias (call_name call) \<notin> set (customToolRegistry rt)"
      "fst (parseToolCall rt call) = Some res"
  shows "\<exists>r. res = ToolUse_result r \<and> tu_name r = resolveToolAlias (call_name call)
            \<and> \<not> tu_partial r \<and> defined (tu_nativeArgs r)
            \<and> (\<forall>k \<in> set (requiredFields (resolveToolAlias (call_name call))).
                  defined (getp (tu_nativeArgs r) k))"
proof -
  have m: "\<not> prefix (MCP_TOOL_PREFIX @ MCP_TOOL_SEPARATOR) (normalizeMcpToolName (call_name call))"
    using assms(1) by (rule static_not_mcp)
  obtain r w where t: "parseToolCall_try rt call (resolveToolAlias (call_name call)) = (Inr r, w)"
      and res: "res = ToolUse_result r"
    using assms m
    by (auto simp: parseToolCall_def Let_def split: prod.splits sum.splits)
  obtain args where
      na: "strictNativeArgs rt (resolveToolAlias (call_name call)) args = Inr (tu_nativeArgs r)"
      and tr: "truthy (tu_nativeArgs r)"
      and nm: "tu_name r = resolveToolAlias (call_name call)" and np: "\<not> tu_partial r"
    using t assms(2)
    by (auto simp: parseToolCall_try_def Let_def split: option.splits sum.splits prod.splits if_splits)
  have "defined (tu_nativeArgs r)" using tr by (auto simp: defined_def)
  moreover have "\<forall>k \<in> set (requiredFields (resolveToolAlias (call_name call))).
                  defined (getp (tu_nativeArgs r) k)"
    using strict_required [OF assms(1) assms(2) na tr] by blast
  ultimately show ?thesis using res nm np by blast
qed

lemma processStreamingChunk_mcp_prefix:
  "map_of (streamingToolCalls st) ident = Some tc \<Longrightarrow>
   prefix (MCP_TOOL_PREFIX @ MCP_TOOL_SEPARATOR) (sc_name tc) \<Longrightarrow>
   fst (processStreamingChunk rt ident chunk st) = None"
  by (simp add: processStreamingChunk_def Let_def)

text \<open>
  Claim C7.  When a known call is finalized and the strict decoder throws on its text,
  or a required argument of its static tool is missing, or its name resolves to no static
  and no custom tool, or its dynamic name does not parse, then finalize returns \<open>null\<close>
  and the last message it writes is an error (for a name that resolves to nothing, the
  invalid-name error with the list of valid names); the call is removed, every other call
  of the registry is as before, and so is the tracker.
\<close>

theorem terminal_failures_are_scoped:
  "map_of (streamingToolCalls st) ident = Some tc
   \<and> ((argumentsAccumulator tc \<noteq> [] \<and> JSON_parse rt (argumentsAccumulator tc) = None)
      \<or> (resolveToolAlias (sc_name tc) \<in> set toolNames
          \<and> resolveToolAlias (sc_name tc) \<notin> set (customToolRegistry rt)
          \<and> (if argumentsAccumulator tc = [] then Some (JObject [])
              else JSON_parse rt (argumentsAccumulator tc)) = Some args
          \<and> k \<in> set (requiredFields (resolveToolAlias (sc_name tc)))
          \<and> \<not> defined (getp args k))
      \<or> (\<not> prefix (MCP_TOOL_PREFIX @ MCP_TOOL_SEPARATOR) (normalizeMcpToolName (sc_name tc))
          \<and> resolveToolAlias (sc_name tc) \<notin> set toolNames
          \<and> resolveToolAlias (sc_name tc) \<notin> set (customToolRegistry rt))
      \<or> (prefix (MCP_TOOL_PREFIX @ MCP_TOOL_SEPARATOR) (normalizeMcpToolName (sc_name tc))
          \<and> parseMcpToolName (normalizeMcpToolName (sc_name tc)) = None))
   \<longrightarrow>
     fst (finalizeStreamingToolCall rt ident st) = None
   \<and> (\<exists>messages. console (snd (finalizeStreamingToolCall rt ident st)) = console st @ messages
         \<and> messages \<noteq> [] \<and> is_error (last messages))
   \<and> (\<not> prefix (MCP_TOOL_PREFIX @ MCP_TOOL_SEPARATOR) (normalizeMcpToolName (sc_name tc))
        \<and> resolveToolAlias (sc_name tc) \<notin> set toolNames
        \<and> resolveToolAlias (sc_name tc) \<notin> set (customToolRegistry rt) \<longrightarrow>
          console (snd (finalizeStreamingToolCall rt ident st))
            = console st @ [ErrorInvalidToolName (sc_name tc) (resolveToolAlias (sc_name tc)),
                            ErrorValidToolNames toolNames])
   \<and> map_of (streamingToolCalls (snd (finalizeStreamingToolCall rt ident st))) ident = None
   \<and> (\<forall>other. other \<noteq> ident \<longrightarrow>
         map_of (streamingToolCalls (snd (finalizeStreamingToolCall rt ident st))) other
           = map_of (streamingToolCalls st) other)
   \<and> rawChunkTracker (snd (finalizeStreamingToolCall rt ident st)) = rawChunkTracker st"
proof (intro impI, elim conjE)
  let ?call = "\<lparr> call_id = sc_id tc, call_name = sc_name tc,
                  call_arguments = argumentsAccumulator tc \<rparr>"
  assume k: "map_of (streamingToolCalls st) ident = Some tc"
    and f: "(argumentsAccumulator tc \<noteq> [] \<and> JSON_parse rt (argumentsAccumulator tc) = None)
      \<or> (resolveToolAlias (sc_name tc) \<in> set toolNames
          \<and> resolveToolAlias (sc_name tc) \<notin> set (customToolRegistry rt)
          \<and> (if argumentsAccumulator tc = [] then Some (JObject [])
              else JSON_parse rt (argumentsAccumulator tc)) = Some args
          \<and> k \<in> set (requiredFields (resolveToolAlias (sc_name tc)))
          \<and> \<not> defined (getp args k))
      \<or> (\<not> prefix (MCP_TOOL_PREFIX @ MCP_TOOL_SEPARATOR) (normalizeMcpToolName (sc_name tc))
          \<and> resolveToolAlias (sc_name tc) \<notin> set toolNames
          \<and> resolveToolAlias (sc_name tc) \<notin> set (customToolRegistry rt))
      \<or> (prefix (MCP_TOOL_PREFIX @ MCP_TOOL_SEPARATOR) (normalizeMcpToolName (sc_name tc))
          \<and> parseMcpToolName (normalizeMcpToolName (sc_name tc)) = None)"
  note fin = finalizeStreamingToolCall_known [OF k, of rt]
  have none: "fst (parseToolCall rt ?call) = None"
    using f
  proof (elim disjE conjE)
    assume "argumentsAccumulator tc \<noteq> []" "JSON_parse rt (argumentsAccumulator tc) = None"
    then show ?thesis using parseToolCall_invalid_json [of ?call rt] by simp
  next
    assume "resolveToolAlias (sc_name tc) \<in> set toolNames"
      "resolveToolAlias (sc_name tc) \<notin> set (customToolRegistry rt)"
      "(if argumentsAccumulator tc = [] then Some (JObject [])
              else JSON_parse rt (argumentsAccumulator tc)) = Some args"
      "k \<in> set (requiredFields (resolveToolAlias (sc_name tc)))"
      "\<not> defined (getp args k)"
    then show ?thesis
      using parseToolCall_missing_required [of ?call rt args k]
      by (cases "argumentsAccumulator tc = []") simp_all
  next
    assume "\<not> prefix (MCP_TOOL_PREFIX @ MCP_TOOL_SEPARATOR) (normalizeMcpToolName (sc_name tc))"
      "resolveToolAlias (sc_name tc) \<notin> set toolNames"
      "resolveToolAlias (sc_name tc) \<notin> set (customToolRegistry rt)"
    then show ?thesis using parseToolCall_unknown_name [of ?call rt] by simp
  next
    assume "prefix (MCP_TOOL_PREFIX @ MCP_TOOL_SEPARATOR) (normalizeMcpToolName (sc_name tc))"
      "parseMcpToolName (normalizeMcpToolName (sc_name tc)) = None"
    then show ?thesis using parseToolCall_malformed_mcp [of ?call rt] by simp
  qed
  have a: "fst (finalizeStreamingToolCall rt ident st) = None"
    using fin none by simp
  have b: "\<exists>messages. console (snd (finalizeStreamingToolCall rt ident st)) = console st @ messages
         \<and> messages \<noteq> [] \<and> is_error (last messages)"
    using fin parseToolCall_failure_logged [OF none] by simp
  have c: "\<not> prefix (MCP_TOOL_PREFIX @ MCP_TOOL_SEPARATOR) (normalizeMcpToolName (sc_name tc))
        \<and> resolveToolAlias (sc_name tc) \<notin> set toolNames
        \<and> resolveToolAlias (sc_name tc) \<notin> set (customToolRegistry rt) \<longrightarrow>
          console (snd (finalizeStreamingToolCall rt ident st))
            = console st @ [ErrorInvalidToolName (sc_name tc) (resolveToolAlias (sc_name tc)),
                            ErrorValidToolNames toolNames]"
    using fin parseToolCall_unknown_name [of ?call rt] by simp
  have d: "rawChunkTracker (snd (finalizeStreamingToolCall rt ident st)) = rawChunkTracker st"
    using fin by simp
  show "fst (finalizeStreamingToolCall rt ident st) = None
   \<and> (\<exists>messages. console (snd (finalizeStreamingToolCall rt ident st)) = console st @ messages
         \<and> messages \<noteq> [] \<and> is_error (last messages))
   \<and> (\<not> prefix (MCP_TOOL_PREFIX @ MCP_TOOL_SEPARATOR) (normalizeMcpToolName (sc_name tc))
        \<and> resolveToolAlias (sc_name tc) \<notin> set toolNames
        \<and> resolveToolAlias (sc_name tc) \<notin> set (customToolRegistry rt) \<longrightarrow>
          console (snd (finalizeStreamingToolCall rt ident st))
            = console st @ [ErrorInvalidToolName (sc_name tc) (resolveToolAlias (sc_name tc)),
                            ErrorValidToolNames toolNames])
   \<and> map_of (streamingToolCalls (snd (finalizeStreamingToolCall rt ident st))) ident = None
   \<and> (\<forall>other. other \<noteq> ident \<longrightarrow>
         map_of (streamingToolCalls (snd (finalizeStreamingToolCall rt ident st))) other
           = map_of (streamingToolCalls st) other)
   \<and> rawChunkTracker (snd (finalizeStreamingToolCall rt ident st)) = rawChunkTracker st"
    using a b c d finalizeStreamingToolCall_deletes [of rt ident st]
      finalizeStreamingToolCall_others [of _ ident rt st]
    by blast
qed

text \<open>
  With a second call in flight, finalizing the call of the unknown tool \<open>no_such_tool\<close>
  fails with the invalid-name error and leaves the other call as it was; the dynamic name
  \<open>mcp--onlyOneSegment\<close> fails with the error for its format.
\<close>

theorem terminal_failures_are_scoped_witness:
  \<open>finalizeStreamingToolCall (table_runtime [] [(''{}'', JObject [])] []) ''c1''
       (snd (processStreamingChunk (table_runtime [] [(''{}'', JObject [])] []) ''c1'' ''{}''
          (startStreamingToolCall ''c2'' ''list_files''
             (startStreamingToolCall ''c1'' ''no_such_tool'' empty_state))))
     = (None,
        \<lparr> streamingToolCalls =
            [(''c2'', \<lparr> sc_id = ''c2'', sc_name = ''list_files'', argumentsAccumulator = [] \<rparr>)],
          rawChunkTracker = [],
          console = [ErrorInvalidToolName ''no_such_tool'' ''no_such_tool'',
                     ErrorValidToolNames toolNames] \<rparr>)
   \<and> finalizeStreamingToolCall (table_runtime [] [(''{}'', JObject [])] []) ''c3''
       (startStreamingToolCall ''c3'' ''mcp--onlyOneSegment'' empty_state)
     = (None,
        \<lparr> streamingToolCalls = [], rawChunkTracker = [],
          console = [ErrorInvalidMcpName ''mcp--onlyOneSegment'' ''mcp--onlyOneSegment''] \<rparr>)\<close>
  using terminal_failures_are_scoped
          [where rt = "table_runtime [] [(''{}'', JObject [])] []" and ident = "''c1''"
             and st = "snd (processStreamingChunk (table_runtime [] [(''{}'', JObject [])] []) ''c1'' ''{}''
          (startStreamingToolCall ''c2'' ''list_files''
             (startStreamingToolCall ''c1'' ''no_such_tool'' empty_state)))"
             and tc = "\<lparr> sc_id = ''c1'', sc_name = ''no_such_tool'', argumentsAccumulator = ''{}'' \<rparr>"]
        terminal_failures_are_scoped
          [where rt = "table_runtime [] [(''{}'', JObject [])] []" and ident = "''c3''"
             and st = "startStreamingToolCall ''c3'' ''mcp--onlyOneSegment'' empty_state"
             and tc = "\<lparr> sc_id = ''c3'', sc_name = ''mcp--onlyOneSegment'', argumentsAccumulator = [] \<rparr>"]
  by (simp add: eval_defs)

text \<open>
  Claim C1.  For a call of a static tool that is not a custom tool, whatever
  \<open>finalizeStreamingToolCall\<close> returns other than \<open>null\<close> is a tool use that is not
  partial, has typed arguments, and has every required field of the tool defined in them.
  When a required field is missing from the decoded arguments, finalize returns \<open>null\<close>
  and the last message it writes is an error.
\<close>

theorem strict_finalize_enforces_required_fields:
  "(map_of (streamingToolCalls st) ident = Some tc
      \<and> resolveToolAlias (sc_name tc) \<in> set toolNames
      \<and> resolveToolAlias (sc_name tc) \<notin> set (customToolRegistry rt)
      \<and> fst (finalizeStreamingToolCall rt ident st) = Some res \<longrightarrow>
        (\<exists>r. res = ToolUse_result r
            \<and> tu_name r = resolveToolAlias (sc_name tc)
            \<and> \<not> tu_partial r
            \<and> defined (tu_nativeArgs r)
            \<and> (\<forall>k \<in> set (requiredFields (resolveToolAlias (sc_name tc))).
                 defined (getp (tu_nativeArgs r) k))))
   \<and> (map_of (streamingToolCalls st) ident = Some tc
      \<and> resolveToolAlias (sc_name tc) \<in> set toolNames
      \<and> resolveToolAlias (sc_name tc) \<notin> set (customToolRegistry rt)
      \<and> (if argumentsAccumulator tc = [] then Some (JObject [])
          else JSON_parse rt (argumentsAccumulator tc)) = Some args
      \<and> k \<in> set (requiredFields (resolveToolAlias (sc_name tc)))
      \<and> \<not> defined (getp args k) \<longrightarrow>
        fst (finalizeStreamingToolCall rt ident st) = None
      \<and> (\<exists>messages. console (snd (finalizeStreamingToolCall rt ident st)) = console st @ messages
            \<and> messages \<noteq> [] \<and> is_error (last messages)))"
proof (intro conjI impI; elim conjE)
  let ?call = "\<lparr> call_id = sc_id tc, call_name = sc_name tc,
                  call_arguments = argumentsAccumulator tc \<rparr>"
  assume k: "map_of (streamingToolCalls st) ident = Some tc"
    and s: "resolveToolAlias (sc_name tc) \<in> set toolNames"
    and c: "resolveToolAlias (sc_name tc) \<notin> set (customToolRegistry rt)"
    and r: "fst (finalizeStreamingToolCall rt ident st) = Some res"
  have "fst (parseToolCall rt ?call) = Some res"
    using finalizeStreamingToolCall_known [OF k, of rt] r by simp
  from parseToolCall_static_result [of ?call rt res] s c this
  show "\<exists>r. res = ToolUse_result r
            \<and> tu_name r = resolveToolAlias (sc_name tc)
            \<and> \<not> tu_partial r
            \<and> defined (tu_nativeArgs r)
            \<and> (\<forall>k \<in> set (requiredFields (resolveToolAlias (sc_name tc))).
                 defined (getp (tu_nativeArgs r) k))"
    by simp
next
  let ?call = "\<lparr> call_id = sc_id tc, call_name = sc_name tc,
                  call_arguments = argumentsAccumulator tc \<rparr>"
  assume k: "map_of (streamingToolCalls st) ident = Some tc"
    and s: "resolveToolAlias (sc_name tc) \<in> set toolNames"
    and c: "resolveToolAlias (sc_name tc) \<notin> set (customToolRegistry rt)"
    and a: "(if argumentsAccumulator tc = [] then Some (JObject [])
          else JSON_parse rt (argumentsAccumulator tc)) = Some args"
    and q: "k \<in> set (requiredFields (resolveToolAlias (sc_name tc)))"
    and u: "\<not> defined (getp args k)"
  have none: "fst (parseToolCall rt ?call) = None"
    using parseToolCall_missing_required [of ?call rt args k] s c a q u
    by (cases "argumentsAccumulator tc = []") simp_all
  show "fst (finalizeStreamingToolCall rt ident st) = None"
    using finalizeStreamingToolCall_known [OF k, of rt] none by simp
  show "\<exists>messages. console (snd (finalizeStreamingToolCall rt ident st)) = console st @ messages
            \<and> messages \<noteq> [] \<and> is_error (last messages)"
    using finalizeStreamingToolCall_known [OF k, of rt] none
      parseToolCall_failure_logged [OF none] by simp
qed

text \<open>
  \<open>canvas_create\<close> requires \<open>name\<close>: finalizing the text \<open>{}\<close> fails with the error for
  invalid arguments, and finalizing a text that has the name returns it in the typed
  arguments.
\<close>

theorem strict_finalize_enforces_required_fields_witness:
  \<open>finalizeStreamingToolCall (table_runtime [] [(''{}'', JObject [])] []) ''c1''
       \<lparr> streamingToolCalls =
           [(''c1'', \<lparr> sc_id = ''c1'', sc_name = ''canvas_create'',
                      argumentsAccumulator = ''{}'' \<rparr>)],
         rawChunkTracker = [], console = [] \<rparr>
     = (None,
        \<lparr> streamingToolCalls = [], rawChunkTracker = [],
          console = [ErrorFailedToParseArguments (InvalidArguments ''canvas_create'' (JObject [])),
                     ErrorToolCall \<lparr> call_id = ''c1'', call_name = ''canvas_create'',
                                     call_arguments = ''{}'' \<rparr>] \<rparr>)
   \<and> finalizeStreamingToolCall
       (table_runtime [] [(''{"name":"Home"}'', JObject [(''name'', JString ''Home'')])] []) ''c1''
       \<lparr> streamingToolCalls =
           [(''c1'', \<lparr> sc_id = ''c1'', sc_name = ''canvas_create'',
                      argumentsAccumulator = ''{"name":"Home"}'' \<rparr>)],
         rawChunkTracker = [], console = [] \<rparr>
     = (Some (ToolUse_result
          \<lparr> tu_name = ''canvas_create'', tu_originalName = None,
            tu_params = [(''name'', AsIs ''Home'')], tu_partial = False,
            tu_nativeArgs = JObject [(''name'', JString ''Home'')] \<rparr>),
        \<lparr> streamingToolCalls = [], rawChunkTracker = [], console = [] \<rparr>)
   \<and> requiredFields ''canvas_create'' = [''name'']\<close>
  using strict_finalize_enforces_required_fields
          [where rt = "table_runtime [] [(''{}'', JObject [])] []" and ident = "''c1''"
             and st = "\<lparr> streamingToolCalls =
           [(''c1'', \<lparr> sc_id = ''c1'', sc_name = ''canvas_create'',
                      argumentsAccumulator = ''{}'' \<rparr>)],
         rawChunkTracker = [], console = [] \<rparr>"
             and tc = "\<lparr> sc_id = ''c1'', sc_name = ''canvas_create'', argumentsAccumulator = ''{}'' \<rparr>"
             and args = "JObject []" and k = "''name''"]
  by (simp add: eval_defs requiredFields_def requiredTable_def)

text \<open>
  Claim C5.  For a call registered under the name \<open>mcp__serverA__toolB\<close>, which
  \<open>normalizeMcpToolName\<close> rewrites to the canonical dynamic name and which finalize
  returns as a dynamic MCP tool use, \<open>processStreamingChunk\<close> returns a partial tool use
  and not \<open>null\<close>: it tests the prefix on the name as registered.  For the canonical name
  \<open>mcp--serverA--toolB\<close> it returns \<open>null\<close>.
\<close>

theorem alternate_separator_name_gets_partial_updates:
  \<open>normalizeMcpToolName ''mcp__serverA__toolB'' = ''mcp--serverA--toolB''
   \<and> processStreamingChunk (table_runtime [(''{}'', JObject [])] [(''{}'', JObject [])] [])
       ''c1'' ''{}'' (startStreamingToolCall ''c1'' ''mcp__serverA__toolB'' empty_state)
     = (Some \<lparr> tu_name = ''mcp__serverA__toolB'', tu_originalName = None, tu_params = [],
               tu_partial = True, tu_nativeArgs = JUndefined \<rparr>,
        \<lparr> streamingToolCalls =
            [(''c1'', \<lparr> sc_id = ''c1'', sc_name = ''mcp__serverA__toolB'',
                       argumentsAccumulator = ''{}'' \<rparr>)],
          rawChunkTracker = [], console = [] \<rparr>)
   \<and> fst (processStreamingChunk (table_runtime [(''{}'', JObject [])] [(''{}'', JObject [])] [])
       ''c1'' ''{}'' (startStreamingToolCall ''c1'' ''mcp--serverA--toolB'' empty_state))
     = None
   \<and> fst (finalizeStreamingToolCall (table_runtime [(''{}'', JObject [])] [(''{}'', JObject [])] [])
       ''c1''
       \<lparr> streamingToolCalls =
            [(''c1'', \<lparr> sc_id = ''c1'', sc_name = ''mcp__serverA__toolB'',
                       argumentsAccumulator = ''{}'' \<rparr>)],
          rawChunkTracker = [], console = [] \<rparr>)
     = Some (McpToolUse_result
         \<lparr> mcp_id = ''c1'', mcp_name = ''mcp--serverA--toolB'', serverName = ''serverA'',
           toolName = ''toolB'', mcp_arguments = JObject [], mcp_partial = False \<rparr>)\<close>
  by (simp add: eval_defs)

section \<open>Partial and final projection agree\<close>

lemma partial_fields_in_strict:
  assumes "partialNativeArgs rt nm args = Inr p" "strictNativeArgs rt nm args = Inr f"
      "defined f" "defined (getp p k)"
  shows "getp f k = getp p k"
  using assms
  by (auto simp: partialNativeArgs_def strictNativeArgs_def guarded_def defined_def Let_def
      split: if_splits sum.splits)

lemma falsy_has_no_property: "\<not> truthy v \<Longrightarrow> getp v = getp (JObject [])"
  by (cases v) (auto intro!: ext)

lemma partialNativeArgs_falsy:
  "\<not> truthy v \<Longrightarrow> partialNativeArgs rt nm (JObject []) = partialNativeArgs rt nm v"
  using falsy_has_no_property [of v] by (simp add: partialNativeArgs_def)

lemma processStreamingChunk_state:
  "snd (processStreamingChunk rt i c st)
     = (case map_of (streamingToolCalls st) i of
          None \<Rightarrow> st \<lparr> console := console st @ [WarnUnknownChunk i] \<rparr>
        | Some tc \<Rightarrow>
            st \<lparr> streamingToolCalls :=
                   AList.update i (tc \<lparr> argumentsAccumulator := argumentsAccumulator tc @ c \<rparr>)
                     (streamingToolCalls st) \<rparr>)"
  by (simp add: processStreamingChunk_def Let_def split: option.splits sum.splits)

lemma processStreamingChunk_registry:
  "map_of (streamingToolCalls (snd (processStreamingChunk rt i c st))) j
     = (if i = j
        then map_option (\<lambda>tc. tc \<lparr> argumentsAccumulator := argumentsAccumulator tc @ c \<rparr>)
               (map_of (streamingToolCalls st) j)
        else map_of (streamingToolCalls st) j)"
  by (simp add: processStreamingChunk_state AList.update_conv' split: option.splits)

lemma appendDeltas_registry:
  "map_of (streamingToolCalls (appendDeltas rt ds st)) j
     = map_option (\<lambda>tc. tc \<lparr> argumentsAccumulator :=
                           argumentsAccumulator tc @ concat (map snd (filter (\<lambda>d. fst d = j) ds)) \<rparr>)
         (map_of (streamingToolCalls st) j)"
proof (induction ds arbitrary: st)
  case Nil
  show ?case by (simp add: option.map_ident)
next
  case (Cons d ds)
  show ?case
    by (simp add: Cons.IH processStreamingChunk_registry option.map_comp comp_def)
qed

lemma begin_then_deltas:
  "map_of (streamingToolCalls
      (appendDeltas rt (map (Pair ident) ds) (startStreamingToolCall ident nm st0))) ident
     = Some \<lparr> sc_id = ident, sc_name = nm, argumentsAccumulator = concat ds \<rparr>"
  by (simp add: appendDeltas_registry startStreamingToolCall_def AList.update_conv' comp_def)

lemma processStreamingChunk_partial:
  assumes "map_of (streamingToolCalls st) ident = Some tc"
      "processStreamingChunk rt ident d st = (Some p, st1)"
      "parseJSON rt (argumentsAccumulator tc @ d) = Some v"
  shows "partialNativeArgs rt (resolveToolAlias (sc_name tc))
           (if truthy v then v else JObject []) = Inr (tu_nativeArgs p)
       \<and> tu_partial p \<and> tu_name p = resolveToolAlias (sc_name tc)
       \<and> map_of (streamingToolCalls st1) ident
           = Some (tc \<lparr> argumentsAccumulator := argumentsAccumulator tc @ d \<rparr>)"
  using assms
  by (auto simp: processStreamingChunk_def createPartialToolUse_def Let_def AList.update_conv'
      split: if_splits sum.splits)

lemma parseToolCall_strict:
  assumes "fst (parseToolCall rt call) = Some (ToolUse_result f)"
      "resolveToolAlias (call_name call) \<notin> set (customToolRegistry rt)"
      "call_arguments call \<noteq> []" "JSON_parse rt (call_arguments call) = Some v"
  shows "strictNativeArgs rt (resolveToolAlias (call_name call)) v = Inr (tu_nativeArgs f)
       \<and> truthy (tu_nativeArgs f) \<and> \<not> tu_partial f
       \<and> tu_name f = resolveToolAlias (call_name call)"
  using assms
  by (auto simp: parseToolCall_def parseDynamicMcpTool_def parseToolCall_try_def Let_def
      split: if_splits option.splits sum.splits prod.splits)

text \<open>
  Claim C2, as amended.  A call of a statically known tool that is not registered in the
  custom tool registry is begun and receives the deltas \<open>ds\<close> and then \<open>d\<close>.  Their
  concatenation is not empty and is a complete JSON document on which the lenient decoder
  returns the same value as \<open>JSON.parse\<close>.  If the last delta returned a partial tool
  use and finalize returns a tool use, then the first is partial, the second is not, both
  carry the resolved name, and every typed field defined in the partial one is defined,
  with the same value, in the final one.
\<close>

theorem partial_fields_survive_finalize:
  assumes "processStreamingChunk rt ident d
             (appendDeltas rt (map (Pair ident) ds) (startStreamingToolCall ident nm st0))
           = (Some p, st1)"
      and "concat ds @ d \<noteq> []"
      and "JSON_parse rt (concat ds @ d) = Some v"
      and "parseJSON rt (concat ds @ d) = Some v"
      and "fst (finalizeStreamingToolCall rt ident st1) = Some (ToolUse_result f)"
      and "resolveToolAlias nm \<in> set toolNames"
      and "resolveToolAlias nm \<notin> set (customToolRegistry rt)"
  shows "tu_partial p \<and> \<not> tu_partial f \<and> tu_name f = tu_name p
       \<and> (defined (getp (tu_nativeArgs p) k)
            \<longrightarrow> getp (tu_nativeArgs f) k = getp (tu_nativeArgs p) k)"
proof -
  let ?tc = "\<lparr> sc_id = ident, sc_name = nm, argumentsAccumulator = concat ds \<rparr>"
  let ?call = "\<lparr> call_id = ident, call_name = nm, call_arguments = concat ds @ d \<rparr>"
  note known = begin_then_deltas [of rt ident ds nm st0]
  from processStreamingChunk_partial [OF known assms(1)] assms(4)
  have pa: "partialNativeArgs rt (resolveToolAlias nm) (if truthy v then v else JObject [])
              = Inr (tu_nativeArgs p)"
    and pp: "tu_partial p" and pn: "tu_name p = resolveToolAlias nm"
    and k1: "map_of (streamingToolCalls st1) ident
              = Some (?tc \<lparr> argumentsAccumulator := concat ds @ d \<rparr>)"
    by simp_all
  have "fst (parseToolCall rt ?call) = Some (ToolUse_result f)"
    using finalizeStreamingToolCall_known [OF k1, of rt] assms(5) by simp
  from parseToolCall_strict [OF this] assms(2,3,7)
  have sa: "strictNativeArgs rt (resolveToolAlias nm) v = Inr (tu_nativeArgs f)"
    and tf: "truthy (tu_nativeArgs f)" and fp: "\<not> tu_partial f"
    and fn: "tu_name f = resolveToolAlias nm"
    by simp_all
  have df: "defined (tu_nativeArgs f)" using tf by (auto simp: defined_def)
  have pa': "partialNativeArgs rt (resolveToolAlias nm) v = Inr (tu_nativeArgs p)"
    using pa partialNativeArgs_falsy [of v rt "resolveToolAlias nm"] by (cases "truthy v") simp_all
  have "defined (getp (tu_nativeArgs p) k)
          \<Longrightarrow> getp (tu_nativeArgs f) k = getp (tu_nativeArgs p) k"
    using partial_fields_in_strict [OF pa' sa df] by simp
  then show ?thesis using pp fp pn fn by simp
qed

text \<open>
  The call \<open>c1\<close> of \<open>browser_navigate\<close> receives \<open>{"ur\<close> and then \<open>l":"http://x"}\<close>:
  the last partial tool use and the final one have the same typed \<open>url\<close>.
\<close>

theorem partial_fields_survive_finalize_witness:
  \<open>processStreamingChunk
       (table_runtime [(''{"ur'', JObject []),
                       (''{"url":"http://x"}'', JObject [(''url'', JString ''http://x'')])]
                      [(''{"url":"http://x"}'', JObject [(''url'', JString ''http://x'')])] [])
       ''c1'' ''l":"http://x"}''
       (appendDeltas
          (table_runtime [(''{"ur'', JObject []),
                          (''{"url":"http://x"}'', JObject [(''url'', JString ''http://x'')])]
                         [(''{"url":"http://x"}'', JObject [(''url'', JString ''http://x'')])] [])
          (map (Pair ''c1'') [''{"ur''])
          (startStreamingToolCall ''c1'' ''browser_navigate'' empty_state))
     = (Some \<lparr> tu_name = ''browser_navigate'', tu_originalName = None,
               tu_params = [(''url'', AsIs ''http://x'')], tu_partial = True,
               tu_nativeArgs = JObject [(''url'', JString ''http://x'')] \<rparr>,
        \<lparr> streamingToolCalls =
            [(''c1'', \<lparr> sc_id = ''c1'', sc_name = ''browser_navigate'',
                       argumentsAccumulator = ''{"url":"http://x"}'' \<rparr>)],
          rawChunkTracker = [], console = [] \<rparr>)
   \<and> fst (finalizeStreamingToolCall
       (table_runtime [(''{"ur'', JObject []),
                       (''{"url":"http://x"}'', JObject [(''url'', JString ''http://x'')])]
                      [(''{"url":"http://x"}'', JObject [(''url'', JString ''http://x'')])] [])
       ''c1''
       \<lparr> streamingToolCalls =
            [(''c1'', \<lparr> sc_id = ''c1'', sc_name = ''browser_navigate'',
                       argumentsAccumulator = ''{"url":"http://x"}'' \<rparr>)],
          rawChunkTracker = [], console = [] \<rparr>)
     = Some (ToolUse_result
         \<lparr> tu_name = ''browser_navigate'', tu_originalName = None,
           tu_params = [(''url'', AsIs ''http://x'')], tu_partial = False,
           tu_nativeArgs = JObject [(''url'', JString ''http://x'')] \<rparr>)
   \<and> getp (JObject [(''url'', JString ''http://x'')]) ''url'' = JString ''http://x''\<close>
  using partial_fields_survive_finalize
          [where rt = \<open>table_runtime [(''{"ur'', JObject []),
                       (''{"url":"http://x"}'', JObject [(''url'', JString ''http://x'')])]
                      [(''{"url":"http://x"}'', JObject [(''url'', JString ''http://x'')])] []\<close>
             and ident = "''c1''" and ds = \<open>[''{"ur'']\<close> and d = \<open>''l":"http://x"}''\<close>
             and nm = "''browser_navigate''" and ?st0.0 = empty_state
             and p = "\<lparr> tu_name = ''browser_navigate'', tu_originalName = None,
               tu_params = [(''url'', AsIs ''http://x'')], tu_partial = True,
               tu_nativeArgs = JObject [(''url'', JString ''http://x'')] \<rparr>"
             and ?st1.0 = \<open>\<lparr> streamingToolCalls =
            [(''c1'', \<lparr> sc_id = ''c1'', sc_name = ''browser_navigate'',
                       argumentsAccumulator = ''{"url":"http://x"}'' \<rparr>)],
          rawChunkTracker = [], console = [] \<rparr>\<close>
             and v = "JObject [(''url'', JString ''http://x'')]"
             and f = "\<lparr> tu_name = ''browser_navigate'', tu_originalName = None,
           tu_params = [(''url'', AsIs ''http://x'')], tu_partial = False,
           tu_nativeArgs = JObject [(''url'', JString ''http://x'')] \<rparr>"
             and k = "''url''"]
  by (simp add: eval_defs)

text \<open>
  Claim C2, as stated, fails in two ways.

  The two decoders differ on a valid document.  For \<open>{"__proto__":{"name":"X"}}\<close> the
  lenient decoder, which builds its objects by assignment, returns an object with no own
  property whose prototype is \<open>{name: "X"}\<close>, and \<open>JSON.parse\<close> returns an object with
  the own property \<open>__proto__\<close>.  For the static tool \<open>canvas_open\<close>, not registered as
  a custom tool, the partial tool use reads \<open>name\<close> through the prototype and has the
  typed field \<open>name = "X"\<close>; the final tool use has \<open>name\<close> undefined, and finalize
  warns about the unknown parameter \<open>__proto__\<close>.

  A static tool name may also be held by the custom tool registry.  With
  \<open>write_to_file\<close> registered there and the complete document \<open>{"path":"a.txt"}\<close>, on
  which the decoders agree, the partial tool use has the typed field \<open>path\<close>; the strict
  projection builds no typed arguments because \<open>content\<close> is missing, the check that
  would throw is skipped for a registered custom tool, and finalize returns a tool use
  whose typed arguments are \<open>undefined\<close>.
\<close>

theorem finalize_loses_partial_typed_field:
  \<open>processStreamingChunk
       (table_runtime
          [(''{"__proto__":{"name":"X"}}'', JObjectProto [] (JObject [(''name'', JString ''X'')]))]
          [(''{"__proto__":{"name":"X"}}'',
            JObject [(''__proto__'', JObject [(''name'', JString ''X'')])])]
          [])
       ''c1'' ''{"__proto__":{"name":"X"}}''
       (startStreamingToolCall ''c1'' ''canvas_open'' empty_state)
     = (Some \<lparr> tu_name = ''canvas_open'', tu_originalName = None,
               tu_params = [], tu_partial = True,
               tu_nativeArgs = JObject [(''canvasId'', JUndefined), (''name'', JString ''X'')] \<rparr>,
        \<lparr> streamingToolCalls =
            [(''c1'', \<lparr> sc_id = ''c1'', sc_name = ''canvas_open'',
                       argumentsAccumulator = ''{"__proto__":{"name":"X"}}'' \<rparr>)],
          rawChunkTracker = [], console = [] \<rparr>)
   \<and> finalizeStreamingToolCall
       (table_runtime
          [(''{"__proto__":{"name":"X"}}'', JObjectProto [] (JObject [(''name'', JString ''X'')]))]
          [(''{"__proto__":{"name":"X"}}'',
            JObject [(''__proto__'', JObject [(''name'', JString ''X'')])])]
          [])
       ''c1''
       \<lparr> streamingToolCalls =
            [(''c1'', \<lparr> sc_id = ''c1'', sc_name = ''canvas_open'',
                       argumentsAccumulator = ''{"__proto__":{"name":"X"}}'' \<rparr>)],
          rawChunkTracker = [], console = [] \<rparr>
     = (Some (ToolUse_result
          \<lparr> tu_name = ''canvas_open'', tu_originalName = None,
            tu_params = [], tu_partial = False,
            tu_nativeArgs = JObject [(''canvasId'', JUndefined), (''name'', JUndefined)] \<rparr>),
        \<lparr> streamingToolCalls = [], rawChunkTracker = [],
          console = [WarnUnknownParameter ''__proto__'' ''canvas_open'',
                     WarnValidParamNames toolParamNames] \<rparr>)
   \<and> getp (JObject [(''canvasId'', JUndefined), (''name'', JString ''X'')]) ''name''
     = JString ''X''
   \<and> getp (JObject [(''canvasId'', JUndefined), (''name'', JUndefined)]) ''name'' = JUndefined
   \<and> processStreamingChunk
       (table_runtime [(''{"path":"a.txt"}'', JObject [(''path'', JString ''a.txt'')])]
                      [(''{"path":"a.txt"}'', JObject [(''path'', JString ''a.txt'')])]
                      [''write_to_file''])
       ''c1'' ''{"path":"a.txt"}'' (startStreamingToolCall ''c1'' ''write_to_file'' empty_state)
     = (Some \<lparr> tu_name = ''write_to_file'', tu_originalName = None,
               tu_params = [(''path'', AsIs ''a.txt'')], tu_partial = True,
               tu_nativeArgs = JObject [(''path'', JString ''a.txt''), (''content'', JUndefined)] \<rparr>,
        \<lparr> streamingToolCalls =
            [(''c1'', \<lparr> sc_id = ''c1'', sc_name = ''write_to_file'',
                       argumentsAccumulator = ''{"path":"a.txt"}'' \<rparr>)],
          rawChunkTracker = [], console = [] \<rparr>)
   \<and> finalizeStreamingToolCall
       (table_runtime [(''{"path":"a.txt"}'', JObject [(''path'', JString ''a.txt'')])]
                      [(''{"path":"a.txt"}'', JObject [(''path'', JString ''a.txt'')])]
                      [''write_to_file''])
       ''c1''
       \<lparr> streamingToolCalls =
            [(''c1'', \<lparr> sc_id = ''c1'', sc_name = ''write_to_file'',
                       argumentsAccumulator = ''{"path":"a.txt"}'' \<rparr>)],
          rawChunkTracker = [], console = [] \<rparr>
     = (Some (ToolUse_result
          \<lparr> tu_name = ''write_to_file'', tu_originalName = None,
            tu_params = [(''path'', AsIs ''a.txt'')], tu_partial = False,
            tu_nativeArgs = JUndefined \<rparr>),
        \<lparr> streamingToolCalls = [], rawChunkTracker = [], console = [] \<rparr>)
   \<and> getp (JObject [(''path'', JString ''a.txt''), (''content'', JUndefined)]) ''path''
     = JString ''a.txt''
   \<and> getp JUndefined ''path'' = JUndefined\<close>
  by (simp add: eval_defs)

section \<open>Accumulated text\<close>

lemma appendDeltas_accumulated:
  "accumulated (appendDeltas rt ds st) j
     = map_option (\<lambda>text. text @ concat (map snd (filter (\<lambda>d. fst d = j) ds)))
         (accumulated st j)"
  by (simp add: accumulated_def appendDeltas_registry option.map_comp comp_def)

lemma applyEvent_accumulated:
  "accumulated (applyEvent rt ev st) a = eventEffect a ev (accumulated st a)"
proof (cases ev)
  case (tool_call_start i n)
  then show ?thesis
    by (simp add: accumulated_def startStreamingToolCall_def AList.update_conv')
next
  case (tool_call_delta i d)
  then show ?thesis
    by (simp add: accumulated_def processStreamingChunk_registry option.map_comp comp_def)
next
  case (tool_call_end i)
  then show ?thesis
    using finalizeStreamingToolCall_deletes [of rt i st]
      finalizeStreamingToolCall_others [of a i rt st]
    by (cases "i = a") (simp_all add: accumulated_def)
qed

lemma applyEvents_accumulated:
  "accumulated (applyEvents rt evs st) a = eventsEffect a evs (accumulated st a)"
  unfolding applyEvents_def eventsEffect_def
  by (induction evs arbitrary: st) (simp_all add: applyEvent_accumulated)

lemma eventsEffect_append:
  "eventsEffect a (xs @ ys) x = eventsEffect a ys (eventsEffect a xs x)"
  by (simp add: eventsEffect_def)


lemma eventsEffect_simps [simp]:
  "eventsEffect a [] x = x"
  "eventsEffect a (ev # evs) x = eventsEffect a evs (eventEffect a ev x)"
  by (simp_all add: eventsEffect_def)

lemma eventsEffect_deltas_other:
  "b \<noteq> a \<Longrightarrow> eventsEffect a (map (tool_call_delta b) ds) x = x"
  by (induction ds) simp_all

lemma eventsEffect_deltas_same:
  "eventsEffect a (map (tool_call_delta a) ds) x = map_option (\<lambda>text. text @ concat ds) x"
  by (induction ds arbitrary: x) (simp_all add: option.map_comp comp_def option.map_ident)

lemma trackedStep_id: "tr_id (snd (trackedStep c e)) = tr_id e"
  by (simp add: trackedStep_def Let_def)

lemma trackedStep_other_id:
  "tr_id e \<noteq> a \<Longrightarrow> eventsEffect a (fst (trackedStep c e)) x = x"
  by (simp add: trackedStep_def Let_def eventsEffect_append eventsEffect_deltas_other)

lemma trackedStep_pending:
  "pendingText (snd (trackedStep c e)) (eventsEffect (tr_id e) (fst (trackedStep c e)) x)
     = map_option (\<lambda>text. text @ or_empty (arguments c)) (pendingText e x)"
proof (cases "truthy_str (arguments c)")
  case True
  then show ?thesis
    by (cases "hasStarted e"; cases "truthy_str (chunk_name c)"; cases "tr_name e = []")
       (simp_all add: trackedStep_def Let_def eventsEffect_append eventsEffect_deltas_same
          pendingText_def option.map_comp comp_def)
next
  case False
  then have "or_empty (arguments c) = []"
    by (cases "arguments c") (simp_all add: or_empty_def)
  with False show ?thesis
    by (cases "hasStarted e"; cases "truthy_str (chunk_name c)"; cases "tr_name e = []")
       (simp_all add: trackedStep_def Let_def eventsEffect_append eventsEffect_deltas_same
          pendingText_def option.map_comp comp_def option.map_ident)
qed

lemma processRawChunk_registry:
  "streamingToolCalls (snd (processRawChunk c st)) = streamingToolCalls st"
  by (simp add: processRawChunk_def Let_def split: option.splits)

lemma processRawChunks_registry:
  "streamingToolCalls (snd (processRawChunks cs st)) = streamingToolCalls st"
  by (induction cs arbitrary: st) (simp_all add: Let_def processRawChunk_registry)

lemma processRawChunk_other_index:
  "j \<noteq> index c \<Longrightarrow>
   map_of (rawChunkTracker (snd (processRawChunk c st))) j = map_of (rawChunkTracker st) j"
  by (simp add: processRawChunk_def Let_def AList.update_conv' split: option.splits)

text \<open>The three ways a chunk meets the tracker.\<close>

lemma processRawChunk_dropped:
  "map_of (rawChunkTracker st) (index c) = None \<Longrightarrow> \<not> truthy_str (chunk_id c) \<Longrightarrow>
   processRawChunk c st = ([], st)"
  by (simp add: processRawChunk_def)

lemma processRawChunk_new:
  "map_of (rawChunkTracker st) (index c) = None \<Longrightarrow> truthy_str (chunk_id c) \<Longrightarrow>
   processRawChunk c st
     = (fst (trackedStep c \<lparr> tr_id = or_empty (chunk_id c), tr_name = or_empty (chunk_name c),
                              hasStarted = False, deltaBuffer = [] \<rparr>),
        st \<lparr> rawChunkTracker :=
               AList.update (index c)
                 (snd (trackedStep c \<lparr> tr_id = or_empty (chunk_id c),
                                        tr_name = or_empty (chunk_name c),
                                        hasStarted = False, deltaBuffer = [] \<rparr>))
                 (rawChunkTracker st) \<rparr>)"
  by (simp add: processRawChunk_def)

lemma processRawChunk_tracked:
  "map_of (rawChunkTracker st) (index c) = Some e \<Longrightarrow>
   processRawChunk c st
     = (fst (trackedStep c e),
        st \<lparr> rawChunkTracker := AList.update (index c) (snd (trackedStep c e)) (rawChunkTracker st) \<rparr>)"
  by (simp add: processRawChunk_def)

lemma processRawChunk_keeps_id:
  assumes "map_of (rawChunkTracker st) j = Some e"
  shows "\<exists>e1. map_of (rawChunkTracker (snd (processRawChunk c st))) j = Some e1
              \<and> tr_id e1 = tr_id e"
proof (cases "j = index c")
  case True
  with assms show ?thesis
    by (simp add: processRawChunk_tracked AList.update_conv' trackedStep_id)
next
  case False
  with assms show ?thesis by (simp add: processRawChunk_other_index)
qed

lemma processRawChunks_keeps_id:
  "map_of (rawChunkTracker st) j = Some e \<Longrightarrow>
   \<exists>e1. map_of (rawChunkTracker (snd (processRawChunks cs st))) j = Some e1 \<and> tr_id e1 = tr_id e"
proof (induction cs arbitrary: st e)
  case Nil
  then show ?case by simp
next
  case (Cons c cs)
  from processRawChunk_keeps_id [OF Cons.prems, of c]
  obtain e1 where "map_of (rawChunkTracker (snd (processRawChunk c st))) j = Some e1"
    and "tr_id e1 = tr_id e" by blast
  with Cons.IH [of "snd (processRawChunk c st)" e1] show ?case by (simp add: Let_def)
qed


lemma fragmentsFor_other_index:
  "index c \<noteq> i \<Longrightarrow> fragmentsFor i (c # cs) = fragmentsFor i cs"
  by (simp add: fragmentsFor_def)

lemma fragmentsFor_no_id:
  "\<not> truthy_str (chunk_id c) \<Longrightarrow> fragmentsFor i (c # cs) = fragmentsFor i cs"
  by (simp add: fragmentsFor_def)

lemma fragmentsFor_first:
  "index c = i \<Longrightarrow> truthy_str (chunk_id c) \<Longrightarrow>
   fragmentsFor i (c # cs)
     = or_empty (arguments c) # map (\<lambda>c. or_empty (arguments c)) (filter (\<lambda>c. index c = i) cs)"
  by (simp add: fragmentsFor_def)

lemma processRawChunk_event_ids:
  assumes "\<And>e1. map_of (rawChunkTracker (snd (processRawChunk c st))) (index c) = Some e1
                  \<Longrightarrow> tr_id e1 \<noteq> a"
  shows "eventsEffect a (fst (processRawChunk c st)) x = x"
proof (cases "map_of (rawChunkTracker st) (index c)")
  case None
  show ?thesis
  proof (cases "truthy_str (chunk_id c)")
    case True
    let ?e0 = "\<lparr> tr_id = or_empty (chunk_id c), tr_name = or_empty (chunk_name c),
                  hasStarted = False, deltaBuffer = [] \<rparr>"
    have "map_of (rawChunkTracker (snd (processRawChunk c st))) (index c)
            = Some (snd (trackedStep c ?e0))"
      using None True by (simp add: processRawChunk_new AList.update_conv')
    from assms [OF this] have "tr_id ?e0 \<noteq> a" by (simp add: trackedStep_id)
    then show ?thesis
      using None True trackedStep_other_id [of ?e0 a c x] by (simp add: processRawChunk_new)
  next
    case False
    with None show ?thesis by (simp add: processRawChunk_dropped)
  qed
next
  case (Some e)
  have "map_of (rawChunkTracker (snd (processRawChunk c st))) (index c)
          = Some (snd (trackedStep c e))"
    using Some by (simp add: processRawChunk_tracked AList.update_conv')
  from assms [OF this] have "tr_id e \<noteq> a" by (simp add: trackedStep_id)
  then show ?thesis
    using Some trackedStep_other_id [of e a c x] by (simp add: processRawChunk_tracked)
qed

lemma processRawChunks_Cons:
  "fst (processRawChunks (c # cs) st)
     = fst (processRawChunk c st) @ fst (processRawChunks cs (snd (processRawChunk c st)))"
  "snd (processRawChunks (c # cs) st) = snd (processRawChunks cs (snd (processRawChunk c st)))"
  by (simp_all add: Let_def)

lemma tracker_feeds_registry:
  assumes "map_of (rawChunkTracker (snd (processRawChunks cs st))) i = Some e'"
      and "\<And>j e. j \<noteq> i \<Longrightarrow> map_of (rawChunkTracker (snd (processRawChunks cs st))) j = Some e
                  \<Longrightarrow> tr_id e \<noteq> tr_id e'"
  shows "pendingText e' (eventsEffect (tr_id e') (fst (processRawChunks cs st)) x)
     = (case map_of (rawChunkTracker st) i of
          None \<Rightarrow> Some (concat (fragmentsFor i cs))
        | Some e \<Rightarrow>
            map_option
              (\<lambda>text. text @ concat (map (\<lambda>c. or_empty (arguments c))
                                       (filter (\<lambda>c. index c = i) cs)))
              (pendingText e x))"
  using assms
proof (induction cs arbitrary: st x)
  case Nil
  then show ?case by (simp add: option.map_ident)
next
  case (Cons c cs)
  let ?a = "tr_id e'"
  let ?st1 = "snd (processRawChunk c st)"
  let ?ev1 = "fst (processRawChunk c st)"
  let ?rest = "\<lambda>cs. concat (map (\<lambda>c. or_empty (arguments c)) (filter (\<lambda>c. index c = i) cs))"
  have fin: "map_of (rawChunkTracker (snd (processRawChunks cs ?st1))) i = Some e'"
    using Cons.prems(1) by (simp add: Let_def)
  have uniq: "\<And>j e. j \<noteq> i \<Longrightarrow> map_of (rawChunkTracker (snd (processRawChunks cs ?st1))) j = Some e
                  \<Longrightarrow> tr_id e \<noteq> ?a"
    using Cons.prems(2) by (simp add: Let_def)
  have ih: "pendingText e' (eventsEffect ?a (fst (processRawChunks cs ?st1)) y)
     = (case map_of (rawChunkTracker ?st1) i of
          None \<Rightarrow> Some (concat (fragmentsFor i cs))
        | Some e \<Rightarrow> map_option (\<lambda>text. text @ ?rest cs) (pendingText e y))" for y
    by (rule Cons.IH [OF fin]) (rule uniq, assumption+)
  have split: "eventsEffect ?a (fst (processRawChunks (c # cs) st)) x
     = eventsEffect ?a (fst (processRawChunks cs ?st1)) (eventsEffect ?a ?ev1 x)"
    by (simp add: Let_def eventsEffect_append)
  show ?case
  proof (cases "index c = i")
    case False
    have same: "map_of (rawChunkTracker ?st1) i = map_of (rawChunkTracker st) i"
      using False by (simp add: processRawChunk_other_index)
    have "tr_id e1 \<noteq> ?a" if "map_of (rawChunkTracker ?st1) (index c) = Some e1" for e1
    proof -
      from processRawChunks_keeps_id [OF that, of cs]
      obtain e2 where "map_of (rawChunkTracker (snd (processRawChunks cs ?st1))) (index c) = Some e2"
        and "tr_id e2 = tr_id e1" by blast
      with uniq [of "index c" e2] False show ?thesis by simp
    qed
    then have quiet: "eventsEffect ?a ?ev1 x = x"
      by (rule processRawChunk_event_ids)
    show ?thesis
      using False by (simp del: processRawChunks.simps add: split quiet ih same fragmentsFor_other_index
          split: option.splits)
  next
    case True
    show ?thesis
    proof (cases "map_of (rawChunkTracker st) i")
      case None
      show ?thesis
      proof (cases "truthy_str (chunk_id c)")
        case False
        have "processRawChunk c st = ([], st)"
          using None True False by (simp add: processRawChunk_dropped)
        then show ?thesis
          using None False ih [of x]
          by (simp del: processRawChunks.simps add: split fragmentsFor_no_id)
      next
        case id: True
        let ?e0 = "\<lparr> tr_id = or_empty (chunk_id c), tr_name = or_empty (chunk_name c),
                      hasStarted = False, deltaBuffer = [] \<rparr>"
        have new: "processRawChunk c st
             = (fst (trackedStep c ?e0),
                st \<lparr> rawChunkTracker :=
                       AList.update (index c) (snd (trackedStep c ?e0)) (rawChunkTracker st) \<rparr>)"
          using None True id by (simp add: processRawChunk_new)
        have e1: "map_of (rawChunkTracker ?st1) i = Some (snd (trackedStep c ?e0))"
          using True by (simp add: new AList.update_conv')
        from processRawChunks_keeps_id [OF e1, of cs] fin
        have a: "?a = tr_id ?e0" by (simp add: trackedStep_id)
        have "pendingText (snd (trackedStep c ?e0)) (eventsEffect ?a ?ev1 x)
                = Some (or_empty (arguments c))"
          using trackedStep_pending [of c ?e0 x] by (simp add: new a pendingText_def)
        then show ?thesis
          using None True id by (simp del: processRawChunks.simps add: split ih e1 fragmentsFor_first)
      qed
    next
      case (Some e)
      have tracked: "processRawChunk c st
           = (fst (trackedStep c e),
              st \<lparr> rawChunkTracker :=
                     AList.update (index c) (snd (trackedStep c e)) (rawChunkTracker st) \<rparr>)"
        using Some True by (simp add: processRawChunk_tracked)
      have e1: "map_of (rawChunkTracker ?st1) i = Some (snd (trackedStep c e))"
        using True by (simp add: tracked AList.update_conv')
      from processRawChunks_keeps_id [OF e1, of cs] fin
      have a: "?a = tr_id e" by (simp add: trackedStep_id)
      have "pendingText (snd (trackedStep c e)) (eventsEffect ?a ?ev1 x)
              = map_option (\<lambda>text. text @ or_empty (arguments c)) (pendingText e x)"
        using trackedStep_pending [of c e x] by (simp add: tracked a)
      then show ?thesis
        using Some True by (simp del: processRawChunks.simps add: split ih e1 option.map_comp comp_def)
    qed
  qed
qed

lemma accumulated_begin: "accumulated (startStreamingToolCall a n st) a = Some []"
  by (simp add: accumulated_def startStreamingToolCall_def AList.update_conv')

text \<open>
  Claim C3.  After any sequence of deltas, interleaved over any call ids, the accumulated
  text of each id in the registry is its text before followed by the fragments addressed
  to that id, in arrival order.  For raw chunks fed to a fresh tracker, and the events it
  emits fed to the registry: for every index whose call has started and whose id no other
  index carries, the accumulated text of its id is the concatenation of the fragments of
  the chunks for that index, from the chunk that brought the id on, whatever was buffered
  before the start; and it is the text obtained by beginning the call and appending those
  fragments directly.
\<close>

theorem accumulated_text_is_concatenation:
  "accumulated (appendDeltas rt ds st) ident
     = map_option (\<lambda>text. text @ concat (map snd (filter (\<lambda>d. fst d = ident) ds)))
         (accumulated st ident)
   \<and> (rawChunkTracker st = []
      \<and> map_of (rawChunkTracker (snd (processRawChunks cs st))) i = Some e
      \<and> hasStarted e
      \<and> (\<forall>j e'. j \<noteq> i \<and> map_of (rawChunkTracker (snd (processRawChunks cs st))) j = Some e'
             \<longrightarrow> tr_id e' \<noteq> tr_id e)
      \<longrightarrow>
        accumulated (applyEvents rt (fst (processRawChunks cs st)) (snd (processRawChunks cs st)))
            (tr_id e)
          = Some (concat (fragmentsFor i cs))
      \<and> accumulated (applyEvents rt (fst (processRawChunks cs st)) (snd (processRawChunks cs st)))
            (tr_id e)
          = accumulated
              (appendDeltas rt (map (Pair (tr_id e)) (fragmentsFor i cs))
                 (startStreamingToolCall (tr_id e) (tr_name e) st))
              (tr_id e))"
proof (intro conjI impI; (elim conjE)?)
  show "accumulated (appendDeltas rt ds st) ident
     = map_option (\<lambda>text. text @ concat (map snd (filter (\<lambda>d. fst d = ident) ds)))
         (accumulated st ident)"
    by (rule appendDeltas_accumulated)
next
  assume fresh: "rawChunkTracker st = []"
    and fin: "map_of (rawChunkTracker (snd (processRawChunks cs st))) i = Some e"
    and started: "hasStarted e"
    and uniq: "\<forall>j e'. j \<noteq> i \<and> map_of (rawChunkTracker (snd (processRawChunks cs st))) j = Some e'
             \<longrightarrow> tr_id e' \<noteq> tr_id e"
  have "pendingText e (eventsEffect (tr_id e) (fst (processRawChunks cs st))
            (accumulated (snd (processRawChunks cs st)) (tr_id e)))
          = Some (concat (fragmentsFor i cs))"
    using tracker_feeds_registry [OF fin, of "accumulated (snd (processRawChunks cs st)) (tr_id e)"]
      uniq fresh by simp
  then have "eventsEffect (tr_id e) (fst (processRawChunks cs st))
            (accumulated (snd (processRawChunks cs st)) (tr_id e))
          = Some (concat (fragmentsFor i cs))"
    using started by (simp add: pendingText_def)
  then show through: "accumulated
          (applyEvents rt (fst (processRawChunks cs st)) (snd (processRawChunks cs st))) (tr_id e)
          = Some (concat (fragmentsFor i cs))"
    by (simp add: applyEvents_accumulated)
  have "accumulated
          (appendDeltas rt (map (Pair (tr_id e)) (fragmentsFor i cs))
             (startStreamingToolCall (tr_id e) (tr_name e) st))
          (tr_id e)
        = Some (concat (fragmentsFor i cs))"
    using accumulated_begin [of "tr_id e" "tr_name e" st]
    by (simp add: appendDeltas_accumulated comp_def)
  with through
  show "accumulated
          (applyEvents rt (fst (processRawChunks cs st)) (snd (processRawChunks cs st))) (tr_id e)
          = accumulated
              (appendDeltas rt (map (Pair (tr_id e)) (fragmentsFor i cs))
                 (startStreamingToolCall (tr_id e) (tr_name e) st))
              (tr_id e)"
    by simp
qed

text \<open>
  The deltas of the calls \<open>a\<close> and \<open>b\<close> arrive interleaved; through the tracker, the first
  fragment of \<open>a\<close> is buffered until the name arrives with the third chunk.
\<close>

theorem accumulated_text_is_concatenation_witness:
  "accumulated
     (appendDeltas (table_runtime [] [] [])
        [(''a'', ''{''), (''b'', ''[1''), (''a'', ''}''), (''b'', '',2]'')]
        (startStreamingToolCall ''b'' ''list_files''
           (startStreamingToolCall ''a'' ''read_file'' empty_state))) ''a''
     = Some ''{}''
   \<and> accumulated
     (appendDeltas (table_runtime [] [] [])
        [(''a'', ''{''), (''b'', ''[1''), (''a'', ''}''), (''b'', '',2]'')]
        (startStreamingToolCall ''b'' ''list_files''
           (startStreamingToolCall ''a'' ''read_file'' empty_state))) ''b''
     = Some ''[1,2]''
   \<and> fst (processRawChunks
          [\<lparr> index = 0, chunk_id = Some ''a'', chunk_name = None, arguments = Some ''{'' \<rparr>,
           \<lparr> index = 1, chunk_id = Some ''b'', chunk_name = Some ''list_files'',
             arguments = Some ''[1'' \<rparr>,
           \<lparr> index = 0, chunk_id = None, chunk_name = Some ''read_file'',
             arguments = Some ''}'' \<rparr>,
           \<lparr> index = 1, chunk_id = None, chunk_name = None, arguments = Some '',2]'' \<rparr>]
          empty_state)
     = [tool_call_start ''b'' ''list_files'', tool_call_delta ''b'' ''[1'',
        tool_call_start ''a'' ''read_file'', tool_call_delta ''a'' ''{'',
        tool_call_delta ''a'' ''}'', tool_call_delta ''b'' '',2]'']
   \<and> accumulated
     (applyEvents (table_runtime [] [] [])
        [tool_call_start ''b'' ''list_files'', tool_call_delta ''b'' ''[1'',
         tool_call_start ''a'' ''read_file'', tool_call_delta ''a'' ''{'',
         tool_call_delta ''a'' ''}'', tool_call_delta ''b'' '',2]'']
        \<lparr> streamingToolCalls = [],
          rawChunkTracker =
            [(0, \<lparr> tr_id = ''a'', tr_name = ''read_file'', hasStarted = True,
                    deltaBuffer = [] \<rparr>),
             (1, \<lparr> tr_id = ''b'', tr_name = ''list_files'', hasStarted = True,
                    deltaBuffer = [] \<rparr>)],
          console = [] \<rparr>) ''a''
     = Some ''{}''"
  using accumulated_text_is_concatenation
          [where rt = "table_runtime [] [] []" and ident = "''a''"
             and ds = "[(''a'', ''{''), (''b'', ''[1''), (''a'', ''}''), (''b'', '',2]'')]"
             and st = "startStreamingToolCall ''b'' ''list_files''
                         (startStreamingToolCall ''a'' ''read_file'' empty_state)"]
        accumulated_text_is_concatenation
          [where rt = "table_runtime [] [] []" and ident = "''b''"
             and ds = "[(''a'', ''{''), (''b'', ''[1''), (''a'', ''}''), (''b'', '',2]'')]"
             and st = "startStreamingToolCall ''b'' ''list_files''
                         (startStreamingToolCall ''a'' ''read_file'' empty_state)"]
        accumulated_text_is_concatenation
          [where rt = "table_runtime [] [] []" and st = empty_state and i = 0
             and cs = "[\<lparr> index = 0, chunk_id = Some ''a'', chunk_name = None, arguments = Some ''{'' \<rparr>,
           \<lparr> index = 1, chunk_id = Some ''b'', chunk_name = Some ''list_files'',
             arguments = Some ''[1'' \<rparr>,
           \<lparr> index = 0, chunk_id = None, chunk_name = Some ''read_file'',
             arguments = Some ''}'' \<rparr>,
           \<lparr> index = 1, chunk_id = None, chunk_name = None, arguments = Some '',2]'' \<rparr>]"
             and e = "\<lparr> tr_id = ''a'', tr_name = ''read_file'', hasStarted = True,
                    deltaBuffer = [] \<rparr>"]
  by (simp add: eval_defs processRawChunk_def trackedStep_def or_empty_def accumulated_def
      fragmentsFor_def)

text \<open>
  A fragment on a chunk for an index that has no id yet is not addressed to a call: the
  tracker drops it (spec 4.1).
\<close>

lemma fragment_before_id_is_dropped:
  "processRawChunks
     [\<lparr> index = 0, chunk_id = None, chunk_name = None, arguments = Some ''{'' \<rparr>,
      \<lparr> index = 0, chunk_id = Some ''a'', chunk_name = Some ''read_file'',
        arguments = Some ''}'' \<rparr>] empty_state
   = ([tool_call_start ''a'' ''read_file'', tool_call_delta ''a'' ''}''],
      \<lparr> streamingToolCalls = [],
        rawChunkTracker =
          [(0, \<lparr> tr_id = ''a'', tr_name = ''read_file'', hasStarted = True,
                  deltaBuffer = [] \<rparr>)],
        console = [] \<rparr>)"
  by (simp add: processRawChunk_def trackedStep_def or_empty_def empty_state_def Let_def)

end
